theory Spec2Isabelle
  imports Main
begin

section \<open>Strings\<close>

text \<open>
  A Python \<open>str\<close> is modelled by the \<open>string\<close> of the bytes of its UTF-8 encoding. A
  text of ASCII characters is then the string of its characters; every other character
  takes two to four bytes, none of them below 128, and its first byte tells how many.
  \<open>chars_of\<close> cuts a text into its characters. A string that is not the encoding of a
  text stands for no \<open>str\<close>.
\<close>

definition py_isascii :: "string \<Rightarrow> bool" where
  "py_isascii s = list_all (\<lambda>c. (of_char c :: int) < 128) s"

definition utf8_width :: "char \<Rightarrow> nat" where
  "utf8_width c = (let n = (of_char c :: int) in
     if n < 192 then 1 else if n < 224 then 2 else if n < 240 then 3 else 4)"

fun chars_of :: "string \<Rightarrow> string list" where
  "chars_of [] = []"
| "chars_of (c # s) = (c # take (utf8_width c - 1) s) # chars_of (drop (utf8_width c - 1) s)"

text \<open>
  \<open>str.isspace\<close>, which \<open>str.strip\<close> consults. In the ASCII range the white space is
  \<open>\t \n \v \f \r\<close>, the four separators 28 to 31 and the blank; beyond it there are
  U+0085, U+00A0, U+1680, U+2000 to U+200A, U+2028, U+2029, U+202F, U+205F and U+3000.
\<close>

definition py_isspace :: "char \<Rightarrow> bool" where
  "py_isspace c = (let n = (of_char c :: int) in (9 \<le> n \<and> n \<le> 13) \<or> (28 \<le> n \<and> n \<le> 32))"

definition unicode_spaces :: "string list" where
  "unicode_spaces =
     [[CHR 0xC2, CHR 0x85], [CHR 0xC2, CHR 0xA0], [CHR 0xE1, CHR 0x9A, CHR 0x80],
      [CHR 0xE2, CHR 0x80, CHR 0x80], [CHR 0xE2, CHR 0x80, CHR 0x81],
      [CHR 0xE2, CHR 0x80, CHR 0x82], [CHR 0xE2, CHR 0x80, CHR 0x83],
      [CHR 0xE2, CHR 0x80, CHR 0x84], [CHR 0xE2, CHR 0x80, CHR 0x85],
      [CHR 0xE2, CHR 0x80, CHR 0x86], [CHR 0xE2, CHR 0x80, CHR 0x87],
      [CHR 0xE2, CHR 0x80, CHR 0x88], [CHR 0xE2, CHR 0x80, CHR 0x89],
      [CHR 0xE2, CHR 0x80, CHR 0x8A], [CHR 0xE2, CHR 0x80, CHR 0xA8],
      [CHR 0xE2, CHR 0x80, CHR 0xA9], [CHR 0xE2, CHR 0x80, CHR 0xAF],
      [CHR 0xE2, CHR 0x81, CHR 0x9F], [CHR 0xE3, CHR 0x80, CHR 0x80]]"

definition char_isspace :: "string \<Rightarrow> bool" where
  "char_isspace ch = (case ch of [c] \<Rightarrow> py_isspace c | _ \<Rightarrow> ch \<in> set unicode_spaces)"

text \<open>
  \<open>str.upper\<close> and \<open>str.lower\<close>. In the ASCII range they move the twenty-six letters.
  Beyond it the tables below hold every character whose converted form has an ASCII
  character in it, such as U+0131, the dotless i, whose upper case is \<open>I\<close>, and the
  ligature U+FB02, whose upper case is \<open>FL\<close>. Any other character beyond ASCII is left as
  it is: Python may convert it, to a text that has no ASCII character.
\<close>

definition upper_char :: "char \<Rightarrow> char" where
  "upper_char c = (let n = (of_char c :: int) in
     if 97 \<le> n \<and> n \<le> 122 then char_of (n - 32) else c)"

definition lower_char :: "char \<Rightarrow> char" where
  "lower_char c = (let n = (of_char c :: int) in
     if 65 \<le> n \<and> n \<le> 90 then char_of (n + 32) else c)"

definition upper_special :: "(string \<times> string) list" where
  "upper_special =
     [([CHR 0xC3, CHR 0x9F], [CHR 0x53, CHR 0x53]), ([CHR 0xC4, CHR 0xB1], [CHR 0x49]),
      ([CHR 0xC5, CHR 0x89], [CHR 0xCA, CHR 0xBC, CHR 0x4E]),
      ([CHR 0xC5, CHR 0xBF], [CHR 0x53]),
      ([CHR 0xC7, CHR 0xB0], [CHR 0x4A, CHR 0xCC, CHR 0x8C]),
      ([CHR 0xE1, CHR 0xBA, CHR 0x96], [CHR 0x48, CHR 0xCC, CHR 0xB1]),
      ([CHR 0xE1, CHR 0xBA, CHR 0x97], [CHR 0x54, CHR 0xCC, CHR 0x88]),
      ([CHR 0xE1, CHR 0xBA, CHR 0x98], [CHR 0x57, CHR 0xCC, CHR 0x8A]),
      ([CHR 0xE1, CHR 0xBA, CHR 0x99], [CHR 0x59, CHR 0xCC, CHR 0x8A]),
      ([CHR 0xE1, CHR 0xBA, CHR 0x9A], [CHR 0x41, CHR 0xCA, CHR 0xBE]),
      ([CHR 0xEF, CHR 0xAC, CHR 0x80], [CHR 0x46, CHR 0x46]),
      ([CHR 0xEF, CHR 0xAC, CHR 0x81], [CHR 0x46, CHR 0x49]),
      ([CHR 0xEF, CHR 0xAC, CHR 0x82], [CHR 0x46, CHR 0x4C]),
      ([CHR 0xEF, CHR 0xAC, CHR 0x83], [CHR 0x46, CHR 0x46, CHR 0x49]),
      ([CHR 0xEF, CHR 0xAC, CHR 0x84], [CHR 0x46, CHR 0x46, CHR 0x4C]),
      ([CHR 0xEF, CHR 0xAC, CHR 0x85], [CHR 0x53, CHR 0x54]),
      ([CHR 0xEF, CHR 0xAC, CHR 0x86], [CHR 0x53, CHR 0x54])]"

definition lower_special :: "(string \<times> string) list" where
  "lower_special =
     [([CHR 0xC4, CHR 0xB0], [CHR 0x69, CHR 0xCC, CHR 0x87]),
      ([CHR 0xE2, CHR 0x84, CHR 0xAA], [CHR 0x6B])]"

definition char_upper :: "string \<Rightarrow> string" where
  "char_upper ch = (case ch of [c] \<Rightarrow> [upper_char c]
     | _ \<Rightarrow> (case map_of upper_special ch of Some u \<Rightarrow> u | None \<Rightarrow> ch))"

definition char_lower :: "string \<Rightarrow> string" where
  "char_lower ch = (case ch of [c] \<Rightarrow> [lower_char c]
     | _ \<Rightarrow> (case map_of lower_special ch of Some l \<Rightarrow> l | None \<Rightarrow> ch))"

definition py_upper :: "string \<Rightarrow> string" where
  "py_upper s = concat (map char_upper (chars_of s))"

definition py_lower :: "string \<Rightarrow> string" where
  "py_lower s = concat (map char_lower (chars_of s))"

text \<open>\<open>s.strip()\<close>: leading and trailing white space removed.\<close>

definition py_strip :: "string \<Rightarrow> string" where
  "py_strip s =
     concat (rev (dropWhile char_isspace (rev (dropWhile char_isspace (chars_of s)))))"

text \<open>
  The word characters of the regular expression \<open>\b\<close>. In the ASCII range they are the
  letters, the digits and the underscore. Beyond it Python takes the alphanumeric
  characters of Unicode, a table of the interpreter that is not modelled: \<open>is_word\<close> holds
  of no byte above 127, and the facts below about the search for whole words take texts
  of ASCII characters.
\<close>

definition is_word :: "char \<Rightarrow> bool" where
  "is_word c = (let n = (of_char c :: int) in
     (48 \<le> n \<and> n \<le> 57) \<or> (65 \<le> n \<and> n \<le> 90) \<or> (97 \<le> n \<and> n \<le> 122) \<or> n = 95)"

text \<open>\<open>sub in s\<close> and \<open>s.count(c)\<close> for a one-character \<open>c\<close>.\<close>

fun py_in :: "string \<Rightarrow> string \<Rightarrow> bool" where
  "py_in sub [] = (sub = [])"
| "py_in sub (c # s) = (take (length sub) (c # s) = sub \<or> py_in sub s)"

definition py_count :: "string \<Rightarrow> char \<Rightarrow> nat" where
  "py_count s c = length (filter (\<lambda>d. d = c) s)"

section \<open>The SQL safety validator\<close>

text \<open>
  \<open>re.search(r'\b' + re.escape(command) + r'\b', text)\<close>. Every command is made of
  letters, which \<open>re.escape\<close> leaves alone, so the pattern is the literal between two
  word boundaries. \<open>\b\<close> holds at position \<open>i\<close> when exactly one of the characters
  before and after \<open>i\<close> is a word character, the outside of the text counting as none.
\<close>

definition at_word_boundary :: "string \<Rightarrow> nat \<Rightarrow> bool" where
  "at_word_boundary s i =
     ((0 < i \<and> is_word (s ! (i - 1))) \<noteq> (i < length s \<and> is_word (s ! i)))"

definition match_at :: "string \<Rightarrow> string \<Rightarrow> nat \<Rightarrow> bool" where
  "match_at lit s i =
     (at_word_boundary s i \<and> i + length lit \<le> length s \<and> take (length lit) (drop i s) = lit
      \<and> at_word_boundary s (i + length lit))"

definition re_search_word :: "string \<Rightarrow> string \<Rightarrow> bool" where
  "re_search_word lit s = list_ex (match_at lit s) [0..<Suc (length s)]"

definition restricted_commands :: "string list" where
  "restricted_commands =
     [''DROP'', ''DELETE'', ''UPDATE'', ''INSERT'', ''CREATE'', ''ALTER'', ''TRUNCATE'',
      ''GRANT'', ''REVOKE'', ''FLUSH'', ''RESET'', ''KILL'', ''SHUTDOWN'', ''RESTART'']"

definition command_reason :: "string \<Rightarrow> string" where
  "command_reason command =
     ''Command '' @ [CHR 0x27] @ command @ [CHR 0x27] @ '' is not allowed for security reasons''"

text \<open>The loop over the restricted commands: the first one found ends the function.\<close>

fun check_commands :: "string list \<Rightarrow> string \<Rightarrow> (bool \<times> string) option" where
  "check_commands [] query_upper = None"
| "check_commands (command # rest) query_upper =
     (if re_search_word command query_upper then Some (False, command_reason command)
      else check_commands rest query_upper)"

definition validate_sql_query :: "string \<Rightarrow> bool \<times> string" where
  "validate_sql_query query =
     (let query_upper = py_upper (py_strip query) in
      case check_commands restricted_commands query_upper of
        Some rejected \<Rightarrow> rejected
      | None \<Rightarrow>
          if py_in '';'' query \<and> py_count query CHR '';'' > 1
          then (False, ''Multiple SQL statements are not allowed'')
          else if py_in ''--'' query \<or> py_in ''/*'' query
          then (False, ''SQL comments are not allowed'')
          else (True, ''Query is allowed''))"

text \<open>
  The words of the specification: a keyword occurs in a text as a whole word, case
  insensitively, when some stretch of the text equals the keyword up to the case of its
  letters and the characters next to the stretch, where there are any, are not word
  characters.
\<close>

definition occurs_at :: "string \<Rightarrow> string \<Rightarrow> nat \<Rightarrow> bool" where
  "occurs_at k q i =
     (i + length k \<le> length q \<and> map upper_char (take (length k) (drop i q)) = k
      \<and> (i = 0 \<or> \<not> is_word (q ! (i - 1)))
      \<and> (i + length k = length q \<or> \<not> is_word (q ! (i + length k))))"

definition occurs_as_word :: "string \<Rightarrow> string \<Rightarrow> bool" where
  "occurs_as_word k q = list_ex (occurs_at k q) [0..<Suc (length q)]"

section \<open>Values, exceptions and effects\<close>

text \<open>
  The values that travel through the tool arguments, the configuration dictionary and the
  rows of a result set: \<open>None\<close>, booleans, integers and strings. A dictionary is a list
  of pairs in insertion order. Floats, nested containers and the driver's other column
  types (decimals, dates, bytes) are outside the model.
\<close>

datatype py_value = PyNone | PyBool bool | PyInt int | PyStr string

type_synonym py_dict = "(string \<times> py_value) list"

definition dict_get :: "py_dict \<Rightarrow> string \<Rightarrow> py_value" where
  "dict_get d k = (case map_of d k of None \<Rightarrow> PyNone | Some v \<Rightarrow> v)"

definition dict_get_default :: "py_dict \<Rightarrow> string \<Rightarrow> py_value \<Rightarrow> py_value" where
  "dict_get_default d k dflt = (case map_of d k of None \<Rightarrow> dflt | Some v \<Rightarrow> v)"

text \<open>\<open>d[k] = v\<close>: an existing key keeps its place, a new key goes to the end.\<close>

fun dict_set :: "py_dict \<Rightarrow> string \<Rightarrow> py_value \<Rightarrow> py_dict" where
  "dict_set [] k v = [(k, v)]"
| "dict_set ((k', v') # d) k v = (if k' = k then (k, v) # d else (k', v') # dict_set d k v)"

fun truthy :: "py_value \<Rightarrow> bool" where
  "truthy PyNone = False"
| "truthy (PyBool b) = b"
| "truthy (PyInt i) = (i \<noteq> 0)"
| "truthy (PyStr s) = (s \<noteq> [])"

fun type_name :: "py_value \<Rightarrow> string" where
  "type_name PyNone = ''NoneType''"
| "type_name (PyBool b) = ''bool''"
| "type_name (PyInt i) = ''int''"
| "type_name (PyStr s) = ''str''"

subsection \<open>Text of values\<close>

definition digit_char :: "int \<Rightarrow> char" where
  "digit_char d = char_of (48 + d)"

text \<open>The decimal digits of a number that is not negative.\<close>

function digits :: "int \<Rightarrow> string" where
  "digits n = (if n < 10 then [digit_char n] else digits (n div 10) @ [digit_char (n mod 10)])"
  by pat_completeness auto
termination
  by (relation "measure nat") auto

declare digits.simps [simp del]

definition py_str_int :: "int \<Rightarrow> string" where
  "py_str_int i = (if i < 0 then CHR ''-'' # digits (- i) else digits i)"

definition py_str_bool :: "bool \<Rightarrow> string" where
  "py_str_bool b = (if b then ''True'' else ''False'')"

definition hex_digit :: "int \<Rightarrow> char" where
  "hex_digit d = (if d < 10 then char_of (48 + d) else char_of (87 + d))"

text \<open>
  \<open>repr\<close> of a string: double quotes when the text has a single quote and no double
  quote, single quotes otherwise; the chosen quote and the backslash are escaped, and so
  are the control characters of ASCII. A character beyond ASCII stays as it is, which is
  what Python does with the printable ones; those that it escapes there, such as U+00A0,
  are not modelled.
\<close>

definition repr_char :: "char \<Rightarrow> char \<Rightarrow> string" where
  "repr_char quote c =
     (let n = (of_char c :: int) in
      if c = quote \<or> c = CHR 0x5C then [CHR 0x5C, c]
      else if c = CHR 0x09 then [CHR 0x5C, CHR ''t'']
      else if c = CHR 0x0A then [CHR 0x5C, CHR ''n'']
      else if c = CHR 0x0D then [CHR 0x5C, CHR ''r'']
      else if n < 32 \<or> n = 127 then [CHR 0x5C, CHR ''x'', hex_digit (n div 16), hex_digit (n mod 16)]
      else [c])"

definition py_repr_str :: "string \<Rightarrow> string" where
  "py_repr_str s =
     (let quote = (if CHR 0x27 \<in> set s \<and> CHR 0x22 \<notin> set s then CHR 0x22 else CHR 0x27)
      in quote # concat (map (repr_char quote) s) @ [quote])"

fun py_repr :: "py_value \<Rightarrow> string" where
  "py_repr PyNone = ''None''"
| "py_repr (PyBool b) = py_str_bool b"
| "py_repr (PyInt i) = py_str_int i"
| "py_repr (PyStr s) = py_repr_str s"

text \<open>\<open>str(v)\<close>, which is what an f-string puts in place of \<open>{v}\<close>.\<close>

fun py_str :: "py_value \<Rightarrow> string" where
  "py_str (PyStr s) = s"
| "py_str v = py_repr v"

fun py_join :: "string \<Rightarrow> string list \<Rightarrow> string" where
  "py_join sep [] = []"
| "py_join sep [x] = x"
| "py_join sep (x # y # xs) = x @ sep @ py_join sep (y # xs)"

definition py_repr_dict :: "py_dict \<Rightarrow> string" where
  "py_repr_dict d = ''{'' @ py_join '', '' (map (\<lambda>(k, v). py_repr_str k @ '': '' @ py_repr v) d) @ ''}''"

definition py_repr_rows :: "py_dict list \<Rightarrow> string" where
  "py_repr_rows rows = ''['' @ py_join '', '' (map py_repr_dict rows) @ '']''"

definition py_str_opt :: "string option \<Rightarrow> string" where
  "py_str_opt v = (case v of None \<Rightarrow> ''None'' | Some s \<Rightarrow> s)"

text \<open>\<open>os.path.basename\<close>: what follows the last slash.\<close>

definition basename :: "string \<Rightarrow> string" where
  "basename p = rev (takeWhile (\<lambda>c. c \<noteq> CHR ''/'') (rev p))"

subsection \<open>Exceptions\<close>

text \<open>
  \<open>MySQLError\<close> stands for \<open>mysql.connector.Error\<close> and its subclasses, \<open>PyException\<close> for
  every other subclass of \<open>Exception\<close>, with the name of its class; both carry the text
  that \<open>str(e)\<close> gives. The texts of the interpreter's own exceptions are those of
  CPython 3.11.
\<close>

datatype exn = MySQLError string | PyException string string

fun exn_str :: "exn \<Rightarrow> string" where
  "exn_str (MySQLError m) = m"
| "exn_str (PyException cls m) = m"

definition unbound_local :: "string \<Rightarrow> exn" where
  "unbound_local var = PyException ''UnboundLocalError''
     (''cannot access local variable '' @ [CHR 0x27] @ var @ [CHR 0x27]
      @ '' where it is not associated with a value'')"

definition key_error :: "string \<Rightarrow> exn" where
  "key_error k = PyException ''KeyError'' (py_repr_str k)"

subsection \<open>\<open>int(text)\<close>\<close>

text \<open>
  \<open>int\<close> reads an optional sign and decimal digits, with single underscores allowed
  between two digits, and ignores white space around them: the white space of C, which
  is \<open>\t \n \v \f \r\<close> and the blank without the four separators, and the white space
  beyond ASCII. It stops at the first character that is no digit and no underscore, and
  refuses more than 4300 digits, the default limit of the interpreter, before it looks at
  what follows them. The digits beyond ASCII, which \<open>int\<close> reads too, are not modelled.
\<close>

definition c_isspace :: "char \<Rightarrow> bool" where
  "c_isspace c = (let n = (of_char c :: int) in (9 \<le> n \<and> n \<le> 13) \<or> n = 32)"

definition int_isspace :: "string \<Rightarrow> bool" where
  "int_isspace ch = (case ch of [c] \<Rightarrow> c_isspace c | _ \<Rightarrow> ch \<in> set unicode_spaces)"

definition int_strip :: "string \<Rightarrow> string" where
  "int_strip s = concat (rev (dropWhile int_isspace (rev (dropWhile int_isspace (chars_of s)))))"

definition is_digit :: "char \<Rightarrow> bool" where
  "is_digit c = (let n = (of_char c :: int) in 48 \<le> n \<and> n \<le> 57)"

fun digit_groups :: "string \<Rightarrow> bool" where
  "digit_groups [] = False"
| "digit_groups [c] = is_digit c"
| "digit_groups (c # d # s) =
     (is_digit c \<and> (if d = CHR ''_'' then digit_groups s else digit_groups (d # s)))"

definition digits_value :: "string \<Rightarrow> int" where
  "digits_value s = foldl (\<lambda>acc c. 10 * acc + (of_char c - 48)) 0 (filter is_digit s)"

definition invalid_literal :: "string \<Rightarrow> exn" where
  "invalid_literal s =
     PyException ''ValueError'' (''invalid literal for int() with base 10: '' @ py_repr_str s)"

definition too_many_digits :: "int \<Rightarrow> exn" where
  "too_many_digits n =
     PyException ''ValueError''
       (''Exceeds the limit (4300 digits) for integer string conversion: value has ''
        @ py_str_int n @ '' digits; use sys.set_int_max_str_digits() to increase the limit'')"

definition py_int :: "string \<Rightarrow> exn + int" where
  "py_int s =
     (let t = int_strip s;
          negative = (t \<noteq> [] \<and> hd t = CHR ''-'');
          body = (if t \<noteq> [] \<and> (hd t = CHR ''-'' \<or> hd t = CHR ''+'') then tl t else t);
          number = takeWhile (\<lambda>c. is_digit c \<or> c = CHR ''_'') body;
          count = int (length (filter is_digit number))
      in if \<not> digit_groups number then Inl (invalid_literal s)
         else if 4300 < count then Inl (too_many_digits count)
         else if number \<noteq> body then Inl (invalid_literal s)
         else Inr (if negative then - digits_value body else digits_value body))"

subsection \<open>Events and the world\<close>

text \<open>
  What a call does to the outside is a list of events, in the order of occurrence: the
  records handed to the logger and the calls into the operating system and the database
  driver. \<open>logger.error(..., exc_info=True)\<close> also appends a traceback to the record; the
  event keeps the message.
\<close>

datatype level = INFO | WARNING | ERROR

datatype event =
    Log level string
  | Popen "string list"
  | Sleep nat
  | Communicate
  | Terminate
  | Wait
  | Connect py_dict
  | Cursor
  | Execute string "py_value list"
  | Fetchall
  | CursorClose
  | ConnectionClose
  | ReadDoc

text \<open>
  The outcome of a statement: whether \<open>cursor.description\<close> is set, what
  \<open>cursor.fetchall()\<close> does, and \<open>cursor.rowcount\<close>. The cursor is a dictionary
  cursor, so a row is a dictionary.
\<close>

record query_result =
  description :: bool
  fetch :: "exn + py_dict list"
  rowcount :: int

text \<open>
  The world of one call: the environment variables and, for each call into the outside,
  whether it raises. \<open>None\<close> in an \<open>exn option\<close> is a call that returns. The attempts to
  connect are numbered from 0.
\<close>

record world =
  environ :: "string \<Rightarrow> string option"
  popen :: "string list \<Rightarrow> exn option"
  communicate :: "exn + string \<times> string"
  terminate :: "exn option"
  wait :: "exn option"
  mysql_connect :: "nat \<Rightarrow> exn option"
  new_cursor :: "exn option"
  cursor_execute :: "string \<Rightarrow> py_value list \<Rightarrow> exn + query_result"
  cursor_close :: "exn option"
  connection_close :: "exn option"
  read_doc :: "exn + string"

definition getenv :: "world \<Rightarrow> string \<Rightarrow> string option" where
  "getenv w name = environ w name"

definition getenv_default :: "world \<Rightarrow> string \<Rightarrow> string \<Rightarrow> string" where
  "getenv_default w name dflt = (case environ w name of None \<Rightarrow> dflt | Some v \<Rightarrow> v)"

text \<open>
  A computation gives the events it caused and then either the exception it raised or
  the value it returned.
\<close>

type_synonym 'a io = "event list \<times> (exn + 'a)"

definition ret :: "'a \<Rightarrow> 'a io" where
  "ret x = ([], Inr x)"

definition raise :: "exn \<Rightarrow> 'a io" where
  "raise e = ([], Inl e)"

definition lift :: "exn + 'a \<Rightarrow> 'a io" where
  "lift r = ([], r)"

definition io_bind :: "'a io \<Rightarrow> ('a \<Rightarrow> 'b io) \<Rightarrow> 'b io" where
  "io_bind m f =
     (case m of
        (es, Inl e) \<Rightarrow> (es, Inl e)
      | (es, Inr x) \<Rightarrow> (case f x of (es', r) \<Rightarrow> (es @ es', r)))"

definition io_seq :: "unit io \<Rightarrow> 'a io \<Rightarrow> 'a io" where
  "io_seq m n = io_bind m (\<lambda>_. n)"

definition logger :: "level \<Rightarrow> string \<Rightarrow> unit io" where
  "logger l msg = ([Log l msg], Inr ())"

text \<open>A call into the outside: the event, then the exception if the world raises one.\<close>

definition ext_call :: "event \<Rightarrow> exn option \<Rightarrow> unit io" where
  "ext_call ev outcome = ([ev], case outcome of None \<Rightarrow> Inr () | Some e \<Rightarrow> Inl e)"

definition sleep :: "nat \<Rightarrow> unit io" where
  "sleep seconds = ([Sleep seconds], Inr ())"

definition ext_value :: "event \<Rightarrow> exn + 'a \<Rightarrow> 'a io" where
  "ext_value ev outcome = ([ev], outcome)"

text \<open>\<open>try: m except Exception as e: handler\<close>.\<close>

definition try_except :: "'a io \<Rightarrow> (exn \<Rightarrow> 'a io) \<Rightarrow> 'a io" where
  "try_except m handler =
     (case m of
        (es, Inl e) \<Rightarrow> (case handler e of (es', r) \<Rightarrow> (es @ es', r))
      | (es, Inr x) \<Rightarrow> (es, Inr x))"

text \<open>\<open>try: m except mysql.connector.Error as e: handler\<close>: another exception goes on.\<close>

definition try_except_mysql :: "'a io \<Rightarrow> (string \<Rightarrow> 'a io) \<Rightarrow> 'a io" where
  "try_except_mysql m handler =
     try_except m (\<lambda>e. case e of MySQLError msg \<Rightarrow> handler msg | PyException cls msg \<Rightarrow> raise e)"

text \<open>
  \<open>try: m finally: fin\<close>: the final block runs after the body, whether the body returned
  or raised; its own exception, if it raises one, replaces the outcome of the body.
\<close>

definition try_finally :: "'a io \<Rightarrow> unit io \<Rightarrow> 'a io" where
  "try_finally m fin =
     (case m of (es, r) \<Rightarrow>
        (case fin of
           (es', Inl e') \<Rightarrow> (es @ es', Inl e')
         | (es', Inr u) \<Rightarrow> (es @ es', r)))"

definition returned :: "'a io \<Rightarrow> bool" where
  "returned m = (case snd m of Inl e \<Rightarrow> False | Inr x \<Rightarrow> True)"

datatype text_content = TextContent string string

section \<open>The tunnel\<close>

text \<open>
  \<open>maybe_ssh_tunnel\<close> is a generator-based context manager. The model takes the body of the
  \<open>with\<close> statement as a function of the pair that the manager yields. Without a tunnel the
  \<open>yield\<close> stands outside any \<open>try\<close>; with a tunnel it stands inside the \<open>try\<close>, so an
  exception of the body is logged there and raised again, and the final block runs after
  the body. \<open>ssh_proc\<close> is bound in the final block exactly when \<open>Popen\<close> returned.
\<close>

definition ssh_command :: "string \<Rightarrow> int \<Rightarrow> string option \<Rightarrow> int \<Rightarrow> string option \<Rightarrow> string option
    \<Rightarrow> int \<Rightarrow> string list" where
  "ssh_command ssh_key local_port remote_host remote_port ssh_user ssh_host ssh_port =
     [''ssh'', ''-i'', ssh_key, ''-N'',
      ''-L'', py_str_int local_port @ '':'' @ py_str_opt remote_host @ '':'' @ py_str_int remote_port,
      py_str_opt ssh_user @ ''@'' @ py_str_opt ssh_host,
      ''-p'', py_str_int ssh_port]"

definition terminate_tunnel :: "world \<Rightarrow> bool \<Rightarrow> unit io" where
  "terminate_tunnel w ssh_proc_bound =
     io_seq (logger INFO ''maybe_ssh_tunnel: Terminating SSH tunnel process.'')
       (try_except
          (if ssh_proc_bound
           then io_seq (ext_call Terminate (terminate w))
                  (io_seq (ext_call Wait (wait w))
                     (logger INFO ''maybe_ssh_tunnel: SSH tunnel process terminated.''))
           else raise (unbound_local ''ssh_proc''))
          (\<lambda>e. logger ERROR (''maybe_ssh_tunnel: Error terminating SSH tunnel: '' @ exn_str e)))"

definition log_tunnel_output :: "world \<Rightarrow> unit io" where
  "log_tunnel_output w =
     try_except
       (io_bind (ext_value Communicate (communicate w)) (\<lambda>(out, err).
          io_seq (if out \<noteq> [] then logger INFO (''maybe_ssh_tunnel: SSH tunnel stdout: '' @ out)
                  else ret ())
                 (if err \<noteq> [] then logger INFO (''maybe_ssh_tunnel: SSH tunnel stderr: '' @ err)
                  else ret ())))
       (\<lambda>e. ret ())"

text \<open>
  The \<open>try\<close> statement around the forwarding process: the process is started, the manager
  sleeps one second, logs, looks at the output of the process, and yields the local end
  of the tunnel to the body.
\<close>

definition run_tunnel :: "world \<Rightarrow> string list \<Rightarrow> string \<Rightarrow> int \<Rightarrow> (string \<times> int \<Rightarrow> 'a io) \<Rightarrow> 'a io"
  where
  "run_tunnel w ssh_cmd established local_port body =
     try_finally
       (try_except
          (io_seq (ext_call (Popen ssh_cmd) (popen w ssh_cmd))
          (io_seq (sleep 1)
          (io_seq (logger INFO established)
          (io_seq (log_tunnel_output w)
             (body (''127.0.0.1'', local_port))))))
          (\<lambda>e. io_seq (logger ERROR (''maybe_ssh_tunnel: Error starting SSH tunnel: '' @ exn_str e))
                  (raise e)))
       (terminate_tunnel w (popen w ssh_cmd = None))"

definition ssh_config_message :: "string option \<Rightarrow> int \<Rightarrow> string option \<Rightarrow> string option
    \<Rightarrow> string option \<Rightarrow> int \<Rightarrow> int \<Rightarrow> string" where
  "ssh_config_message ssh_host ssh_port ssh_user safe_ssh_key remote_host remote_port local_port =
     ''maybe_ssh_tunnel: SSH config: host='' @ py_str_opt ssh_host
     @ '', port='' @ py_str_int ssh_port @ '', user='' @ py_str_opt ssh_user
     @ '', key='' @ py_str_opt safe_ssh_key
     @ '', remote_host='' @ py_str_opt remote_host
     @ '', remote_port='' @ py_str_int remote_port
     @ '', local_port='' @ py_str_int local_port"

definition established_message :: "int \<Rightarrow> string option \<Rightarrow> int \<Rightarrow> string option \<Rightarrow> string" where
  "established_message local_port remote_host remote_port ssh_host =
     ''maybe_ssh_tunnel: SSH tunnel established: 127.0.0.1:'' @ py_str_int local_port
     @ '' -> '' @ py_str_opt remote_host @ '':'' @ py_str_int remote_port
     @ '' via '' @ py_str_opt ssh_host"

text \<open>The branch without a tunnel: the configured host and port are yielded.\<close>

definition direct_endpoint :: "world \<Rightarrow> (string \<times> int \<Rightarrow> 'a io) \<Rightarrow> 'a io" where
  "direct_endpoint w body =
     io_seq (logger INFO ''maybe_ssh_tunnel: Not using SSH tunnel, connecting directly.'')
     (io_seq (logger INFO (''maybe_ssh_tunnel: host='' @ getenv_default w ''MYSQL_HOST'' ''localhost''
                @ '', port='' @ getenv_default w ''MYSQL_PORT'' ''3306''))
     (io_bind (lift (py_int (getenv_default w ''MYSQL_PORT'' ''3306''))) (\<lambda>port.
        body (getenv_default w ''MYSQL_HOST'' ''localhost'', port))))"

text \<open>
  The branch with a tunnel. The command is joined for the log before the \<open>try\<close>
  statement, which fails when no key path is set.
\<close>

definition ssh_endpoint :: "world \<Rightarrow> (string \<times> int \<Rightarrow> 'a io) \<Rightarrow> 'a io" where
  "ssh_endpoint w body =
     (let ssh_host = getenv w ''MYSQL_SSH_HOST'' in
      io_bind (lift (py_int (getenv_default w ''MYSQL_SSH_PORT'' ''22''))) (\<lambda>ssh_port.
      let ssh_user = getenv w ''MYSQL_SSH_USER'';
          ssh_key = getenv w ''MYSQL_SSH_KEY_PATH'';
          remote_host = getenv w ''MYSQL_SSH_REMOTE_HOST'' in
      io_bind (lift (py_int (getenv_default w ''MYSQL_SSH_REMOTE_PORT'' ''3306''))) (\<lambda>remote_port.
      io_bind (lift (py_int (getenv_default w ''MYSQL_LOCAL_PORT'' ''3330''))) (\<lambda>local_port.
      let safe_ssh_key = (case ssh_key of None \<Rightarrow> None
                          | Some k \<Rightarrow> if k \<noteq> [] then Some (basename k) else None) in
      io_seq (logger INFO (ssh_config_message ssh_host ssh_port ssh_user safe_ssh_key remote_host
                remote_port local_port))
      (case ssh_key of
         None \<Rightarrow> raise (PyException ''TypeError''
                    ''sequence item 2: expected str instance, NoneType found'')
       | Some key \<Rightarrow>
          (let ssh_cmd = ssh_command key local_port remote_host remote_port ssh_user ssh_host
                           ssh_port in
           io_seq (logger INFO (''maybe_ssh_tunnel: Starting SSH tunnel with command: ''
                     @ py_join '' '' ssh_cmd))
             (run_tunnel w ssh_cmd
                (established_message local_port remote_host remote_port ssh_host)
                local_port body)))))))"

definition use_ssh :: "world \<Rightarrow> bool" where
  "use_ssh w = (py_lower (getenv_default w ''MYSQL_SSH_ENABLE'' ''false'') = ''true'')"

definition maybe_ssh_tunnel :: "world \<Rightarrow> (string \<times> int \<Rightarrow> 'a io) \<Rightarrow> 'a io" where
  "maybe_ssh_tunnel w body =
     io_seq (logger INFO (''maybe_ssh_tunnel: use_ssh='' @ py_str_bool (use_ssh w)))
       (if \<not> use_ssh w then direct_endpoint w body else ssh_endpoint w body)"

section \<open>The connection factory\<close>

definition env_value :: "string option \<Rightarrow> py_value" where
  "env_value v = (case v of None \<Rightarrow> PyNone | Some s \<Rightarrow> PyStr s)"

definition get_db_config :: "world \<Rightarrow> py_dict io" where
  "get_db_config w =
     (let config =
            [(''user'', env_value (getenv w ''MYSQL_USER'')),
             (''password'', env_value (getenv w ''MYSQL_PASSWORD'')),
             (''database'', env_value (getenv w ''MYSQL_DATABASE'')),
             (''charset'', PyStr (getenv_default w ''MYSQL_CHARSET'' ''utf8mb4'')),
             (''collation'', PyStr (getenv_default w ''MYSQL_COLLATION'' ''utf8mb4_unicode_ci'')),
             (''autocommit'', PyBool True),
             (''sql_mode'', PyStr (getenv_default w ''MYSQL_SQL_MODE'' ''TRADITIONAL'')),
             (''connect_timeout'', PyInt 10),
             (''pool_size'', PyInt 5),
             (''pool_reset_session'', PyBool True)];
          config = filter (\<lambda>(k, v). v \<noteq> PyNone) config;
          safe_config = (if ''password'' \<in> set (map fst config)
                         then dict_set config ''password'' (PyStr ''***'') else config)
      in io_seq (logger INFO (''get_db_config: config='' @ py_repr_dict safe_config))
         (if \<not> (truthy (dict_get config ''user'') \<and> truthy (dict_get config ''password'')
                 \<and> truthy (dict_get config ''database''))
          then io_seq (logger ERROR
                 ''Missing required database configuration. Please check environment variables:'')
               (io_seq (logger ERROR ''MYSQL_USER, MYSQL_PASSWORD, and MYSQL_DATABASE are required'')
                  (raise (PyException ''ValueError'' ''Missing required database configuration'')))
          else ret config))"

definition max_retries :: nat where
  "max_retries = 3"

text \<open>
  One turn of the loop \<open>for attempt in range(max_retries)\<close>: the \<open>try\<close> block with its
  handler. The turn ends the function with the connection, or raises, or lets the loop
  go on.
\<close>

datatype loop_step = Return | Continue

definition connect_attempt :: "world \<Rightarrow> py_dict \<Rightarrow> nat \<Rightarrow> loop_step io" where
  "connect_attempt w pool_config attempt =
     try_except_mysql
       (io_seq (logger INFO (''get_database_connection: Attempt '' @ py_str_int (int attempt + 1)
                  @ '' to connect to MySQL''))
       (io_seq (ext_call (Connect pool_config) (mysql_connect w attempt))
       (io_seq (logger INFO ''get_database_connection: Database connection established successfully'')
          (ret Return))))
       (\<lambda>msg.
          io_seq (logger WARNING (''get_database_connection: Database connection attempt ''
                    @ py_str_int (int attempt + 1) @ '' failed: '' @ msg))
          (if attempt < max_retries - 1
           then io_seq (sleep 1) (ret Continue)
           else io_seq (logger ERROR ''get_database_connection: All connection attempts failed.'')
                  (raise (MySQLError msg))))"

text \<open>The loop over the range, and the statement after the loop.\<close>

fun connect_loop :: "world \<Rightarrow> py_dict \<Rightarrow> nat list \<Rightarrow> unit io" where
  "connect_loop w pool_config [] =
     raise (PyException ''RuntimeError'' ''Failed to establish database connection after all retries'')"
| "connect_loop w pool_config (attempt # rest) =
     (case connect_attempt w pool_config attempt of
        (es, Inl e) \<Rightarrow> (es, Inl e)
      | (es, Inr Return) \<Rightarrow> (es, Inr ())
      | (es, Inr Continue) \<Rightarrow>
          (case connect_loop w pool_config rest of (es', r) \<Rightarrow> (es @ es', r)))"

definition get_database_connection :: "world \<Rightarrow> string \<Rightarrow> int \<Rightarrow> unit io" where
  "get_database_connection w host port =
     io_seq (logger INFO (''get_database_connection: Connecting to '' @ host @ '':''
               @ py_str_int port))
     (io_bind (get_db_config w) (\<lambda>config.
        let config = dict_set config ''host'' (PyStr host);
            config = dict_set config ''port'' (PyInt port);
            config = dict_set config ''auth_plugin'' (PyStr ''mysql_native_password'') in
        io_seq (logger INFO (''get_database_connection: config='' @ py_repr_dict config))
        (let pool_config =
               filter (\<lambda>(k, v). k \<notin> set [''pool_size'', ''pool_reset_session'']) config
         in connect_loop w pool_config [0..<max_retries])))"

section \<open>The handlers\<close>

definition text_result :: "string \<Rightarrow> text_content list" where
  "text_result t = [TextContent ''text'' t]"

definition newline :: string where
  "newline = [CHR 0x0A]"

text \<open>
  The first two statements of every \<open>try\<close> block of a handler: the connection, then the
  cursor. \<open>cursor\<close> is bound in the final block exactly when both returned.
\<close>

definition open_cursor :: "world \<Rightarrow> string \<Rightarrow> int \<Rightarrow> unit io" where
  "open_cursor w host port =
     io_seq (get_database_connection w host port) (ext_call Cursor (new_cursor w))"

text \<open>\<open>cursor.close(); connection.close()\<close>, the body of the \<open>try\<close> in each final block.\<close>

definition close_cursor_and_connection :: "world \<Rightarrow> bool \<Rightarrow> unit io" where
  "close_cursor_and_connection w cursor_bound =
     (if cursor_bound
      then io_seq (ext_call CursorClose (cursor_close w))
             (ext_call ConnectionClose (connection_close w))
      else raise (unbound_local ''cursor''))"

definition handler_log :: "string \<Rightarrow> string \<Rightarrow> int \<Rightarrow> py_dict \<Rightarrow> unit io" where
  "handler_log fname host port arguments =
     logger INFO (fname @ '': host='' @ host @ '', port='' @ py_str_int port
                  @ '', arguments='' @ py_repr_dict arguments)"

subsection \<open>execute_sql\<close>

text \<open>\<open>arguments.get("query", "").strip()\<close>: only a string has the method.\<close>

definition query_argument :: "py_dict \<Rightarrow> exn + string" where
  "query_argument arguments =
     (case dict_get_default arguments ''query'' (PyStr []) of
        PyStr s \<Rightarrow> Inr (py_strip s)
      | v \<Rightarrow> Inl (PyException ''AttributeError''
                 ([CHR 0x27] @ type_name v @ [CHR 0x27] @ '' object has no attribute ''
                  @ [CHR 0x27] @ ''strip'' @ [CHR 0x27])))"

text \<open>The statements of the \<open>try\<close> block that follow the cursor.\<close>

definition run_query :: "world \<Rightarrow> string \<Rightarrow> text_content list io" where
  "run_query w query =
     io_seq (logger INFO (''execute_sql_tool: About to execute query: '' @ query))
     (io_bind (ext_value (Execute query []) (cursor_execute w query [])) (\<lambda>res.
      io_seq (logger INFO ''execute_sql_tool: Query executed successfully, about to fetch results.'')
      (if description res then
         io_bind (ext_value Fetchall (fetch res)) (\<lambda>results.
         io_seq (logger INFO (''execute_sql_tool: Results fetched, ''
                   @ py_str_int (int (length results)) @ '' rows.''))
         (if results \<noteq> [] then
            io_seq (logger INFO ''execute_sql_tool: Returning formatted results.'')
              (ret (text_result (''Query executed successfully. Results:'' @ newline
                      @ py_repr_rows results)))
          else
            io_seq (logger INFO ''execute_sql_tool: Query executed, no results returned.'')
              (ret (text_result ''Query executed successfully. No results returned.''))))
       else
         io_seq (logger INFO (''execute_sql_tool: Query executed, no result set. ''
                   @ ''Rows affected: '' @ py_str_int (rowcount res)))
           (ret (text_result (''Query executed successfully. Rows affected: ''
                   @ py_str_int (rowcount res)))))))"

text \<open>The two \<open>except\<close> clauses of \<open>execute_sql_tool\<close>.\<close>

definition query_failed :: "exn \<Rightarrow> text_content list io" where
  "query_failed e =
     (case e of
        MySQLError msg \<Rightarrow>
          io_seq (logger ERROR (''execute_sql_tool: SQL execution error: '' @ msg))
            (ret (text_result (''SQL error: '' @ msg)))
      | PyException cls msg \<Rightarrow>
          io_seq (logger ERROR (''execute_sql_tool: Unexpected error: '' @ msg))
            (ret (text_result (''Unexpected error: '' @ msg))))"

definition execute_sql_tool :: "world \<Rightarrow> string \<Rightarrow> int \<Rightarrow> py_dict \<Rightarrow> text_content list io" where
  "execute_sql_tool w host port arguments =
     io_seq (handler_log ''execute_sql_tool'' host port arguments)
     (io_bind (lift (query_argument arguments)) (\<lambda>query.
        if query = [] then ret (text_result ''No SQL query provided'')
        else (case validate_sql_query query of (is_allowed, reason) \<Rightarrow>
          if \<not> is_allowed then ret (text_result (''Query not allowed: '' @ reason))
          else
            (let acquired = open_cursor w host port in
             try_finally
               (try_except (io_seq acquired (run_query w query)) query_failed)
               (try_except (close_cursor_and_connection w (returned acquired))
                  (\<lambda>e. logger ERROR (''execute_sql_tool: Error closing cursor/connection: ''
                          @ exn_str e)))))))"

subsection \<open>get_schema_info\<close>

definition dict_item :: "py_dict \<Rightarrow> string \<Rightarrow> exn + py_value" where
  "dict_item d k = (case map_of d k of None \<Rightarrow> Inl (key_error k) | Some v \<Rightarrow> Inr v)"

definition sum_bind :: "exn + 'a \<Rightarrow> ('a \<Rightarrow> exn + 'b) \<Rightarrow> exn + 'b" where
  "sum_bind r f = (case r of Inl e \<Rightarrow> Inl e | Inr x \<Rightarrow> f x)"

text \<open>\<open>==\<close> on values: a boolean equals the integer 0 or 1 it stands for.\<close>

fun py_eq :: "py_value \<Rightarrow> py_value \<Rightarrow> bool" where
  "py_eq (PyBool b) (PyInt i) = ((if b then 1 else 0) = i)"
| "py_eq (PyInt i) (PyBool b) = ((if b then 1 else 0) = i)"
| "py_eq u v = (u = v)"

text \<open>The line of one column, from the five values read from the row.\<close>

definition column_line :: "py_dict \<Rightarrow> exn + string" where
  "column_line col =
     sum_bind (dict_item col ''COLUMN_NAME'') (\<lambda>field.
     sum_bind (dict_item col ''DATA_TYPE'') (\<lambda>type_name.
     sum_bind (dict_item col ''IS_NULLABLE'') (\<lambda>null_val.
     sum_bind (dict_item col ''COLUMN_DEFAULT'') (\<lambda>default_val.
     sum_bind (dict_item col ''COLUMN_COMMENT'') (\<lambda>comment.
       Inr (''  - '' @ py_str field @ '': '' @ py_str type_name @ '' ''
            @ (if py_eq null_val (PyStr ''NO'') then ''NOT NULL'' else ''NULL'')
            @ (if default_val \<noteq> PyNone then '' DEFAULT '' @ py_str default_val else [])
            @ (if truthy comment then ''  # '' @ py_str comment else [])
            @ newline))))))"

fun table_columns :: "py_dict list \<Rightarrow> string \<Rightarrow> exn + string" where
  "table_columns [] result = Inr result"
| "table_columns (col # cols) result =
     (case column_line col of
        Inl e \<Rightarrow> Inl e
      | Inr line \<Rightarrow> table_columns cols (result @ line))"

fun all_columns :: "py_dict list \<Rightarrow> string \<Rightarrow> py_value \<Rightarrow> exn + string" where
  "all_columns [] result last_table = Inr result"
| "all_columns (col # cols) result last_table =
     (case dict_item col ''TABLE_NAME'' of
        Inl e \<Rightarrow> Inl e
      | Inr tname \<Rightarrow>
          (case column_line col of
             Inl e \<Rightarrow> Inl e
           | Inr line \<Rightarrow>
               if \<not> py_eq tname last_table
               then all_columns cols
                      (result @ newline @ ''Table: '' @ py_str tname @ newline @ ''Columns:''
                       @ newline @ line) tname
               else all_columns cols (result @ line) last_table))"

definition indent16 :: string where
  "indent16 = replicate 16 CHR '' ''"

definition schema_select :: string where
  "schema_select =
     newline @ indent16
     @ ''SELECT TABLE_NAME, COLUMN_NAME, DATA_TYPE, IS_NULLABLE, COLUMN_DEFAULT, COLUMN_COMMENT''
     @ newline @ indent16 @ ''FROM information_schema.COLUMNS'' @ newline @ indent16"

definition table_schema_sql :: string where
  "table_schema_sql =
     schema_select @ ''WHERE TABLE_SCHEMA = DATABASE() AND TABLE_NAME = %s''
     @ newline @ indent16 @ ''ORDER BY ORDINAL_POSITION'' @ newline @ indent16"

definition all_schema_sql :: string where
  "all_schema_sql =
     schema_select @ ''WHERE TABLE_SCHEMA = DATABASE()''
     @ newline @ indent16 @ ''ORDER BY TABLE_NAME, ORDINAL_POSITION'' @ newline @ indent16"

text \<open>The statements of the \<open>try\<close> block that follow the cursor.\<close>

definition describe_schema :: "world \<Rightarrow> py_value \<Rightarrow> text_content list io" where
  "describe_schema w table_name =
     (if truthy table_name then
        io_bind (ext_value (Execute table_schema_sql [table_name])
                   (cursor_execute w table_schema_sql [table_name])) (\<lambda>res.
        io_bind (ext_value Fetchall (fetch res)) (\<lambda>columns.
        io_bind (lift (table_columns columns
                   (''Table: '' @ py_str table_name @ newline @ ''Columns:'' @ newline)))
          (\<lambda>result. ret (text_result result))))
      else
        io_bind (ext_value (Execute all_schema_sql []) (cursor_execute w all_schema_sql []))
          (\<lambda>res.
        io_bind (ext_value Fetchall (fetch res)) (\<lambda>columns.
        io_bind (lift (all_columns columns (''Database Schema (all tables):'' @ newline) PyNone))
          (\<lambda>result. ret (text_result result)))))"

definition get_schema_info_tool :: "world \<Rightarrow> string \<Rightarrow> int \<Rightarrow> py_dict \<Rightarrow> text_content list io" where
  "get_schema_info_tool w host port arguments =
     io_seq (handler_log ''get_schema_info_tool'' host port arguments)
     (let table_name = dict_get arguments ''table_name'';
          acquired = open_cursor w host port in
      try_finally
        (try_except_mysql (io_seq acquired (describe_schema w table_name))
           (\<lambda>msg. io_seq (logger ERROR (''Schema info error: '' @ msg))
                     (ret (text_result (''Schema error: '' @ msg)))))
        (try_except (close_cursor_and_connection w (returned acquired)) (\<lambda>e. ret ())))"

subsection \<open>get_table_sample\<close>

text \<open>\<open>min(v, n)\<close> for an integer \<open>n\<close>: \<open>v\<close> unless \<open>n < v\<close>, which only numbers can be asked.\<close>

definition py_min :: "py_value \<Rightarrow> int \<Rightarrow> exn + py_value" where
  "py_min v n =
     (case v of
        PyInt i \<Rightarrow> Inr (if n < i then PyInt n else PyInt i)
      | PyBool b \<Rightarrow> Inr (if n < (if b then 1 else 0) then PyInt n else PyBool b)
      | _ \<Rightarrow> Inl (PyException ''TypeError''
                 ([CHR 0x27, CHR ''<'', CHR 0x27] @ '' not supported between instances of ''
                  @ [CHR 0x27] @ ''int'' @ [CHR 0x27] @ '' and ''
                  @ [CHR 0x27] @ type_name v @ [CHR 0x27])))"

definition sample_column_line :: "py_dict \<Rightarrow> string" where
  "sample_column_line col =
     (let field = dict_get_default col ''Field'' (dict_get_default col ''field'' (PyStr []));
          type_name = dict_get_default col ''Type'' (dict_get_default col ''type'' (PyStr []))
      in ''  - '' @ py_str field @ '': '' @ py_str type_name @ newline)"

definition sample_row_text :: "nat \<times> py_dict \<Rightarrow> string" where
  "sample_row_text numbered =
     (case numbered of (i, row) \<Rightarrow>
        newline @ ''Row '' @ py_str_int (int i) @ '':'' @ newline
        @ concat (map (\<lambda>(key, val). ''  '' @ key @ '': '' @ py_str val @ newline) row))"

definition sample_text :: "py_value \<Rightarrow> py_dict list \<Rightarrow> py_dict list \<Rightarrow> string" where
  "sample_text table_name columns rows =
     ''Table: '' @ py_str table_name @ newline @ newline
     @ ''Columns:'' @ newline
     @ concat (map sample_column_line columns)
     @ newline @ ''Sample Data ('' @ py_str_int (int (length rows)) @ '' rows):'' @ newline
     @ concat (map sample_row_text (zip [1..<Suc (length rows)] rows))"

definition describe_sql :: "py_value \<Rightarrow> string" where
  "describe_sql table_name = ''DESCRIBE `'' @ py_str table_name @ ''`''"

definition sample_sql :: "py_value \<Rightarrow> py_value \<Rightarrow> string" where
  "sample_sql table_name limit =
     ''SELECT * FROM `'' @ py_str table_name @ ''` LIMIT '' @ py_str limit"

text \<open>The statements of the \<open>try\<close> block that follow the cursor.\<close>

definition sample_table :: "world \<Rightarrow> py_value \<Rightarrow> py_value \<Rightarrow> text_content list io" where
  "sample_table w table_name limit =
     io_bind (ext_value (Execute (describe_sql table_name) [])
                (cursor_execute w (describe_sql table_name) [])) (\<lambda>described.
     io_bind (ext_value Fetchall (fetch described)) (\<lambda>columns.
     io_bind (ext_value (Execute (sample_sql table_name limit) [])
                (cursor_execute w (sample_sql table_name limit) [])) (\<lambda>sampled.
     io_bind (ext_value Fetchall (fetch sampled)) (\<lambda>rows.
       ret (text_result (sample_text table_name columns rows))))))"

definition get_table_sample_tool :: "world \<Rightarrow> string \<Rightarrow> int \<Rightarrow> py_dict \<Rightarrow> text_content list io" where
  "get_table_sample_tool w host port arguments =
     io_seq (handler_log ''get_table_sample_tool'' host port arguments)
     (let table_name = dict_get arguments ''table_name'' in
      io_bind (lift (py_min (dict_get_default arguments ''limit'' (PyInt 5)) 20)) (\<lambda>limit.
      if \<not> truthy table_name then ret (text_result ''Table name is required'')
      else
        (let acquired = open_cursor w host port in
         try_finally
           (try_except_mysql (io_seq acquired (sample_table w table_name limit))
              (\<lambda>msg. io_seq (logger ERROR (''Table sample error: '' @ msg))
                        (ret (text_result (''Table sample error: '' @ msg)))))
           (try_except (close_cursor_and_connection w (returned acquired)) (\<lambda>e. ret ())))))"

section \<open>The dispatcher\<close>

definition get_reference_doc :: "world \<Rightarrow> text_content list io" where
  "get_reference_doc w =
     io_seq (logger INFO ''call_tool: Reading MCP_USECASES.md'')
       (try_except
          (io_bind (ext_value ReadDoc (read_doc w)) (\<lambda>doc. ret (text_result doc)))
          (\<lambda>e. io_seq (logger ERROR (''Failed to read MCP_USECASES.md: '' @ exn_str e))
                  (ret (text_result ''Reference documentation not available.''))))"

definition dispatch :: "world \<Rightarrow> string \<Rightarrow> py_dict \<Rightarrow> string \<times> int \<Rightarrow> text_content list io" where
  "dispatch w name arguments endpoint =
     (case endpoint of (host, port) \<Rightarrow>
        io_seq (logger INFO (''call_tool: Tunnel established, host='' @ host @ '', port=''
                  @ py_str_int port))
        (if name = ''execute_sql'' then
           io_seq (logger INFO ''call_tool: Executing execute_sql_tool'')
             (execute_sql_tool w host port arguments)
         else if name = ''get_schema_info'' then
           io_seq (logger INFO ''call_tool: Executing get_schema_info_tool'')
             (get_schema_info_tool w host port arguments)
         else if name = ''get_table_sample'' then
           io_seq (logger INFO ''call_tool: Executing get_table_sample_tool'')
             (get_table_sample_tool w host port arguments)
         else if name = ''get_reference_doc'' then get_reference_doc w
         else
           io_seq (logger ERROR (''call_tool: Unknown tool: '' @ name))
             (ret (text_result (''Unknown tool: '' @ name)))))"

definition call_tool :: "world \<Rightarrow> string \<Rightarrow> py_dict \<Rightarrow> text_content list io" where
  "call_tool w name arguments =
     io_seq (logger INFO (''call_tool: name='' @ name @ '', arguments='' @ py_repr_dict arguments))
       (try_except
          (maybe_ssh_tunnel w (dispatch w name arguments))
          (\<lambda>e. io_seq (logger ERROR (''Tool execution failed: '' @ exn_str e))
                  (ret (text_result ''An error occurred while opening tunnels.''))))"

section \<open>Kinds of events\<close>

text \<open>The events that reach the database driver, and the kinds the claims count.\<close>

fun db_event :: "event \<Rightarrow> bool" where
  "db_event (Connect config) = True"
| "db_event Cursor = True"
| "db_event (Execute sql params) = True"
| "db_event Fetchall = True"
| "db_event CursorClose = True"
| "db_event ConnectionClose = True"
| "db_event e = False"

fun is_connect :: "event \<Rightarrow> bool" where
  "is_connect (Connect config) = True"
| "is_connect e = False"

fun is_sleep :: "event \<Rightarrow> bool" where
  "is_sleep (Sleep seconds) = True"
| "is_sleep e = False"

fun is_log :: "event \<Rightarrow> bool" where
  "is_log (Log l msg) = True"
| "is_log e = False"

text \<open>The texts of the log records of a trace.\<close>

fun log_messages :: "event list \<Rightarrow> string list" where
  "log_messages [] = []"
| "log_messages (Log l msg # es) = msg # log_messages es"
| "log_messages (e # es) = log_messages es"

text \<open>The configuration handed to the driver, as \<open>get_database_connection\<close> derives it.\<close>

definition pool_config_of :: "py_dict \<Rightarrow> string \<Rightarrow> int \<Rightarrow> py_dict" where
  "pool_config_of config host port =
     filter (\<lambda>(k, v). k \<notin> set [''pool_size'', ''pool_reset_session''])
       (dict_set (dict_set (dict_set config ''host'' (PyStr host)) ''port'' (PyInt port))
          ''auth_plugin'' (PyStr ''mysql_native_password''))"

text \<open>
  The first statement of \<open>get_database_connection\<close> writes a log record that begins with
  the words below, so a trace without such a record is one in which the function was not
  called.
\<close>

fun starts_with :: "string \<Rightarrow> string \<Rightarrow> bool" where
  "starts_with [] s = True"
| "starts_with (p # ps) [] = False"
| "starts_with (p # ps) (c # s) = (p = c \<and> starts_with ps s)"

fun factory_entry :: "event \<Rightarrow> bool" where
  "factory_entry (Log l msg) = starts_with ''get_database_connection: Connecting to '' msg"
| "factory_entry e = False"

fun is_execute :: "event \<Rightarrow> bool" where
  "is_execute (Execute sql params) = True"
| "is_execute e = False"

text \<open>The kinds of events that \<open>get_database_connection\<close> causes.\<close>

definition factory_kind :: "event \<Rightarrow> bool" where
  "factory_kind e = (is_log e \<or> is_connect e \<or> is_sleep e)"

section \<open>Sample worlds\<close>

text \<open>
  Worlds at which the theorems are tried: a direct connection with the three required
  variables set, in which every call into the outside returns and a statement gives one
  row; and the same behind a tunnel.
\<close>

definition sample_result :: query_result where
  "sample_result = \<lparr> description = True, fetch = Inr [[(''n'', PyInt 1)]], rowcount = 1 \<rparr>"

definition direct_world :: world where
  "direct_world =
     \<lparr> environ = map_of [(''MYSQL_USER'', ''app''), (''MYSQL_PASSWORD'', ''hunter2''),
                          (''MYSQL_DATABASE'', ''shop'')],
       popen = (\<lambda>cmd. None),
       communicate = Inl (PyException ''TimeoutExpired'' ''timed out after 0.1 seconds''),
       terminate = None,
       wait = None,
       mysql_connect = (\<lambda>attempt. None),
       new_cursor = None,
       cursor_execute = (\<lambda>sql params. Inr sample_result),
       cursor_close = None,
       connection_close = None,
       read_doc = Inr ''reference'' \<rparr>"

definition tunnel_world :: world where
  "tunnel_world =
     direct_world
       \<lparr> environ := map_of [(''MYSQL_USER'', ''app''), (''MYSQL_PASSWORD'', ''hunter2''),
                             (''MYSQL_DATABASE'', ''shop''), (''MYSQL_SSH_ENABLE'', ''true''),
                             (''MYSQL_SSH_HOST'', ''bastion''), (''MYSQL_SSH_USER'', ''ops''),
                             (''MYSQL_SSH_KEY_PATH'', ''/home/ops/.ssh/id_rsa''),
                             (''MYSQL_SSH_REMOTE_HOST'', ''db'')] \<rparr>"

text \<open>The configuration that \<open>get_db_config\<close> builds in these worlds.\<close>

definition sample_config :: py_dict where
  "sample_config =
     [(''user'', PyStr ''app''), (''password'', PyStr ''hunter2''), (''database'', PyStr ''shop''),
      (''charset'', PyStr ''utf8mb4''), (''collation'', PyStr ''utf8mb4_unicode_ci''),
      (''autocommit'', PyBool True), (''sql_mode'', PyStr ''TRADITIONAL''),
      (''connect_timeout'', PyInt 10), (''pool_size'', PyInt 5),
      (''pool_reset_session'', PyBool True)]"

section \<open>Facts about the validator\<close>

text \<open>On a text of ASCII characters the operations work character by character.\<close>

lemma py_isascii_iff: "py_isascii s = (\<forall>c\<in>set s. (of_char c :: int) < 128)"
  by (simp add: py_isascii_def list_all_iff)

lemma chars_of_ascii: "py_isascii s \<Longrightarrow> chars_of s = map (\<lambda>c. [c]) s"
  by (induction s) (simp_all add: py_isascii_def utf8_width_def)

lemma concat_singletons: "concat (map (\<lambda>c. [c]) s) = s"
  by (induction s) simp_all

lemma py_upper_ascii: "py_isascii s \<Longrightarrow> py_upper s = map upper_char s"
  by (simp add: py_upper_def chars_of_ascii char_upper_def comp_def)

lemma py_strip_ascii:
  "py_isascii s \<Longrightarrow> py_strip s = rev (dropWhile py_isspace (rev (dropWhile py_isspace s)))"
proof -
  assume "py_isascii s"
  then have c: "chars_of s = map (\<lambda>c. [c]) s" by (rule chars_of_ascii)
  have d: "dropWhile char_isspace (map (\<lambda>c. [c]) xs) = map (\<lambda>c. [c]) (dropWhile py_isspace xs)"
    for xs by (induction xs) (simp_all add: char_isspace_def)
  show ?thesis
    by (simp add: py_strip_def c d rev_map concat_singletons)
qed

lemma py_isascii_strip: "py_isascii s \<Longrightarrow> py_isascii (py_strip s)"
proof -
  assume a: "py_isascii s"
  have "set (rev (dropWhile py_isspace (rev (dropWhile py_isspace s)))) \<subseteq> set s"
    by (auto dest!: set_dropWhileD)
  then show ?thesis using a unfolding py_strip_ascii[OF a] py_isascii_iff by blast
qed


lemma is_word_upper_char: "is_word (upper_char c) = is_word c"
  unfolding is_word_def upper_char_def Let_def
  by auto

lemma space_not_word: "py_isspace c \<Longrightarrow> \<not> is_word c"
  unfolding is_word_def py_isspace_def Let_def by auto

lemma restricted_commands_shape:
  "k \<in> set restricted_commands \<Longrightarrow> k \<noteq> [] \<and> (\<forall>c\<in>set k. is_word c) \<and> map upper_char k = k"
  unfolding restricted_commands_def is_word_def upper_char_def Let_def
  by auto

lemma strip_decomp:
  assumes "py_isascii q"
  shows "\<exists>a b. q = a @ py_strip q @ b \<and> (\<forall>c\<in>set a. py_isspace c) \<and> (\<forall>c\<in>set b. py_isspace c)"
proof -
  let ?d = "dropWhile py_isspace q"
  have "q = takeWhile py_isspace q @ ?d" by simp
  moreover have "rev ?d = takeWhile py_isspace (rev ?d) @ dropWhile py_isspace (rev ?d)" by simp
  then have "?d = py_strip q @ rev (takeWhile py_isspace (rev ?d))"
    unfolding py_strip_ascii[OF assms] by (metis rev_append rev_rev_ident)
  moreover have "\<forall>c\<in>set (takeWhile py_isspace q). py_isspace c" by (auto dest: set_takeWhileD)
  moreover have "\<forall>c\<in>set (rev (takeWhile py_isspace (rev ?d))). py_isspace c" by (auto dest: set_takeWhileD)
  ultimately show ?thesis by metis
qed

text \<open>Inside an occurrence every character is a word character.\<close>

lemma occurs_at_word:
  assumes "map upper_char (take (length k) (drop i q)) = k" "\<forall>c\<in>set k. is_word c"
    "i + length k \<le> length q" "j < length k"
  shows "is_word (q ! (i + j))"
proof -
  have "k ! j = upper_char (q ! (i + j))"
  proof -
    have "k ! j = map upper_char (take (length k) (drop i q)) ! j" using assms(1) by simp
    also have "\<dots> = upper_char (take (length k) (drop i q) ! j)"
      using assms(3,4) by simp
    also have "\<dots> = upper_char (q ! (i + j))" using assms(3,4) by simp
    finally show ?thesis .
  qed
  moreover have "is_word (k ! j)" using assms(2,4) by simp
  ultimately show ?thesis by (simp add: is_word_upper_char)
qed

lemma match_at_iff_occurs_at:
  assumes "k \<noteq> []" "\<forall>c\<in>set k. is_word c"
  shows "match_at k (map upper_char m) i = occurs_at k m i"
proof (cases "i + length k \<le> length m \<and> map upper_char (take (length k) (drop i m)) = k")
  case False
  then show ?thesis
    by (auto simp: match_at_def occurs_at_def take_map drop_map)
next
  case True
  then have le: "i + length k \<le> length m" and eq: "map upper_char (take (length k) (drop i m)) = k"
    by auto
  have n: "0 < length k" using assms(1) by simp
  have first: "is_word (m ! i)" using occurs_at_word[OF eq assms(2) le n] by simp
  have last: "is_word (m ! (i + length k - 1))"
    using occurs_at_word[OF eq assms(2) le, of "length k - 1"] n by simp
  have lt: "i < length m" and lt': "i + length k - 1 < length m" using le n by arith+
  have b1: "at_word_boundary (map upper_char m) i = (i = 0 \<or> \<not> is_word (m ! (i - 1)))"
    using lt first by (auto simp: at_word_boundary_def is_word_upper_char)
  have b2: "at_word_boundary (map upper_char m) (i + length k)
            = (i + length k = length m \<or> \<not> is_word (m ! (i + length k)))"
    using le n lt' last by (auto simp: at_word_boundary_def is_word_upper_char)
  show ?thesis
    using True b1 b2 by (auto simp: match_at_def occurs_at_def take_map drop_map)
qed

lemma occurs_at_prepend:
  assumes "k \<noteq> []" "\<forall>c\<in>set k. is_word c" "\<forall>c\<in>set a. \<not> is_word c"
  shows "occurs_at k (a @ m) i = (length a \<le> i \<and> occurs_at k m (i - length a))"
proof (cases "length a \<le> i")
  case True
  then obtain j where i: "i = length a + j" using le_Suc_ex by blast
  have "a \<noteq> [] \<Longrightarrow> \<not> is_word (a ! (length a - 1))" using assms(3) by simp
  then show ?thesis
    unfolding occurs_at_def i by (cases j) (auto simp: nth_append)
next
  case False
  have "\<not> occurs_at k (a @ m) i"
  proof
    assume o: "occurs_at k (a @ m) i"
    then have "is_word ((a @ m) ! (i + 0))"
      using occurs_at_word[of k i "a @ m" 0] assms(1,2) by (simp add: occurs_at_def)
    moreover have "(a @ m) ! i = a ! i" using False by (simp add: nth_append)
    ultimately show False using assms(3) False by simp
  qed
  then show ?thesis using False by simp
qed

lemma occurs_at_append:
  assumes "k \<noteq> []" "\<forall>c\<in>set k. is_word c" "\<forall>c\<in>set b. \<not> is_word c"
  shows "occurs_at k (m @ b) i = occurs_at k m i"
proof (cases "i + length k \<le> length m")
  case True
  have "b \<noteq> [] \<Longrightarrow> \<not> is_word (b ! 0)" using assms(3) by simp
  then show ?thesis using True
    unfolding occurs_at_def by (auto simp: nth_append)
next
  case False
  have "\<not> occurs_at k (m @ b) i"
  proof
    assume o: "occurs_at k (m @ b) i"
    have n: "length k - 1 < length k" using assms(1) by simp
    have "is_word ((m @ b) ! (i + (length k - 1)))"
      using occurs_at_word[of k i "m @ b" "length k - 1"] assms(2) o n
      by (simp add: occurs_at_def)
    moreover have "\<not> i + (length k - 1) < length m" using False n by arith
    then have "(m @ b) ! (i + (length k - 1)) = b ! (i + (length k - 1) - length m)"
      by (simp only: nth_append if_False)
    moreover have "i + length k \<le> length m + length b" using o by (simp add: occurs_at_def)
    then have "i + (length k - 1) - length m < length b"
      using False n by arith
    ultimately show False using assms(3) by simp
  qed
  moreover have "\<not> occurs_at k m i" using False by (simp add: occurs_at_def)
  ultimately show ?thesis by simp
qed

lemma re_search_word_iff: "re_search_word k s = (\<exists>i. match_at k s i)"
proof -
  have "match_at k s i \<Longrightarrow> i \<in> set [0..<Suc (length s)]" for i
    by (simp add: match_at_def del: upt_Suc)
  then show ?thesis unfolding re_search_word_def list_ex_iff by blast
qed

lemma occurs_as_word_iff: "occurs_as_word k q = (\<exists>i. occurs_at k q i)"
proof -
  have "occurs_at k q i \<Longrightarrow> i \<in> set [0..<Suc (length q)]" for i
    by (simp add: occurs_at_def del: upt_Suc)
  then show ?thesis unfolding occurs_as_word_def list_ex_iff by blast
qed

lemma search_normalised_iff:
  assumes "k \<noteq> []" "\<forall>c\<in>set k. is_word c" and ascii: "py_isascii q"
  shows "re_search_word k (py_upper (py_strip q)) = occurs_as_word k q"
proof -
  note assms = assms(1,2)
  have u: "py_upper (py_strip q) = map upper_char (py_strip q)"
    using py_upper_ascii[OF py_isascii_strip[OF ascii]] .
  obtain a b where q: "q = a @ py_strip q @ b"
    and a: "\<forall>c\<in>set a. py_isspace c" and b: "\<forall>c\<in>set b. py_isspace c"
    using strip_decomp[OF ascii] by blast
  have a': "\<forall>c\<in>set a. \<not> is_word c" and b': "\<forall>c\<in>set b. \<not> is_word c"
    using a b space_not_word by blast+
  have "(\<exists>i. occurs_at k q i) = (\<exists>i. occurs_at k (a @ py_strip q @ b) i)"
    using q by simp
  also have "\<dots> = (\<exists>i. length a \<le> i \<and> occurs_at k (py_strip q) (i - length a))"
    by (simp add: occurs_at_prepend[OF assms a'] occurs_at_append[OF assms b'])
  also have "\<dots> = (\<exists>j. occurs_at k (py_strip q) j)"
  proof
    assume "\<exists>i. length a \<le> i \<and> occurs_at k (py_strip q) (i - length a)"
    then show "\<exists>j. occurs_at k (py_strip q) j" by blast
  next
    assume "\<exists>j. occurs_at k (py_strip q) j"
    then obtain j where "occurs_at k (py_strip q) j" ..
    then have "length a \<le> length a + j \<and> occurs_at k (py_strip q) (length a + j - length a)"
      by simp
    then show "\<exists>i. length a \<le> i \<and> occurs_at k (py_strip q) (i - length a)" by blast
  qed
  finally show ?thesis
    by (simp add: u re_search_word_iff occurs_as_word_iff match_at_iff_occurs_at[OF assms])
qed

lemma check_commands_find:
  assumes "\<forall>k\<in>set cs. k \<noteq> [] \<and> (\<forall>c\<in>set k. is_word c)" "py_isascii q"
  shows "check_commands cs (py_upper (py_strip q))
         = map_option (\<lambda>k. (False, command_reason k)) (find (\<lambda>k. occurs_as_word k q) cs)"
  using assms by (induction cs) (simp_all add: search_normalised_iff)


lemma py_in_single: "py_in [c] s = (c \<in> set s)"
  by (induction s) (auto simp: take_Cons')

lemma py_count_pos: "0 < py_count s c \<Longrightarrow> c \<in> set s"
  by (auto simp: py_count_def filter_empty_conv)

lemma check_commands_rejects: "check_commands cs t = Some r \<Longrightarrow> fst r = False"
  by (induction cs) (auto split: if_splits)



lemma restricted_commands_words:
  "\<forall>k\<in>set restricted_commands. k \<noteq> [] \<and> (\<forall>c\<in>set k. is_word c)"
  using restricted_commands_shape by blast

section \<open>Events and outcome of the combinators\<close>

lemma fst_ret [simp]: "fst (ret x) = []" and snd_ret [simp]: "snd (ret x) = Inr x"
  by (simp_all add: ret_def)

lemma fst_raise [simp]: "fst (raise e) = []" and snd_raise [simp]: "snd (raise e) = Inl e"
  by (simp_all add: raise_def)

lemma fst_lift [simp]: "fst (lift r) = []" and snd_lift [simp]: "snd (lift r) = r"
  by (simp_all add: lift_def)

lemma fst_logger [simp]: "fst (logger l m) = [Log l m]"
  and snd_logger [simp]: "snd (logger l m) = Inr ()"
  by (simp_all add: logger_def)

lemma fst_sleep [simp]: "fst (sleep n) = [Sleep n]" and snd_sleep [simp]: "snd (sleep n) = Inr ()"
  by (simp_all add: sleep_def)

lemma fst_ext_call [simp]: "fst (ext_call ev r) = [ev]"
  and snd_ext_call [simp]: "snd (ext_call ev r) = (case r of None \<Rightarrow> Inr () | Some e \<Rightarrow> Inl e)"
  by (simp_all add: ext_call_def)

lemma fst_ext_value [simp]: "fst (ext_value ev r) = [ev]"
  and snd_ext_value [simp]: "snd (ext_value ev r) = r"
  by (simp_all add: ext_value_def)

lemma fst_io_bind [simp]:
  "fst (io_bind m f) = fst m @ (case snd m of Inl e \<Rightarrow> [] | Inr x \<Rightarrow> fst (f x))"
  by (cases m) (auto simp: io_bind_def split: sum.splits prod.splits)

lemma snd_io_bind [simp]:
  "snd (io_bind m f) = (case snd m of Inl e \<Rightarrow> Inl e | Inr x \<Rightarrow> snd (f x))"
  by (cases m) (auto simp: io_bind_def split: sum.splits prod.splits)

lemma fst_io_seq [simp]:
  "fst (io_seq m n) = fst m @ (case snd m of Inl e \<Rightarrow> [] | Inr u \<Rightarrow> fst n)"
  by (simp add: io_seq_def)

lemma snd_io_seq [simp]:
  "snd (io_seq m n) = (case snd m of Inl e \<Rightarrow> Inl e | Inr u \<Rightarrow> snd n)"
  by (simp add: io_seq_def)

lemma fst_try_except [simp]:
  "fst (try_except m h) = fst m @ (case snd m of Inl e \<Rightarrow> fst (h e) | Inr x \<Rightarrow> [])"
  by (cases m) (auto simp: try_except_def split: sum.splits prod.splits)

lemma snd_try_except [simp]:
  "snd (try_except m h) = (case snd m of Inl e \<Rightarrow> snd (h e) | Inr x \<Rightarrow> Inr x)"
  by (cases m) (auto simp: try_except_def split: sum.splits prod.splits)

lemma fst_try_except_mysql [simp]:
  "fst (try_except_mysql m h)
   = fst m @ (case snd m of Inl (MySQLError msg) \<Rightarrow> fst (h msg) | _ \<Rightarrow> [])"
  by (auto simp: try_except_mysql_def split: sum.splits exn.splits)

lemma snd_try_except_mysql [simp]:
  "snd (try_except_mysql m h)
   = (case snd m of Inl (MySQLError msg) \<Rightarrow> snd (h msg) | other \<Rightarrow> other)"
  by (auto simp: try_except_mysql_def split: sum.splits exn.splits)

lemma fst_try_finally [simp]: "fst (try_finally m fin) = fst m @ fst fin"
  by (cases m; cases fin) (auto simp: try_finally_def split: sum.splits)

lemma snd_try_finally [simp]:
  "snd (try_finally m fin) = (case snd fin of Inl e \<Rightarrow> Inl e | Inr u \<Rightarrow> snd m)"
  by (cases m; cases fin) (auto simp: try_finally_def split: sum.splits)

lemma returned_iff: "returned m = (\<exists>x. snd m = Inr x)"
  by (auto simp: returned_def split: sum.splits)

lemma range_max_retries: "[0..<max_retries] = [0, 1, 2]"
  by (simp add: max_retries_def upt_rec)

lemma connect_attempt_events:
  "filter (\<lambda>e. is_connect e \<or> is_sleep e) (fst (connect_attempt w pool attempt))
   = Connect pool # (case mysql_connect w attempt of
                       Some (MySQLError msg) \<Rightarrow> if attempt < max_retries - 1 then [Sleep 1] else []
                     | _ \<Rightarrow> [])"
  by (simp add: connect_attempt_def split: option.splits exn.splits)

lemma connect_attempt_outcome:
  "snd (connect_attempt w pool attempt)
   = (case mysql_connect w attempt of
        None \<Rightarrow> Inr Return
      | Some (MySQLError msg) \<Rightarrow>
          if attempt < max_retries - 1 then Inr Continue else Inl (MySQLError msg)
      | Some (PyException cls msg) \<Rightarrow> Inl (PyException cls msg))"
  by (simp add: connect_attempt_def split: option.splits exn.splits)

lemma fst_connect_loop_Cons:
  "fst (connect_loop w pool (attempt # rest))
   = fst (connect_attempt w pool attempt)
     @ (case snd (connect_attempt w pool attempt) of
          Inr Continue \<Rightarrow> fst (connect_loop w pool rest) | _ \<Rightarrow> [])"
  by (cases "connect_attempt w pool attempt")
     (auto split: sum.splits loop_step.splits prod.splits)

lemma snd_connect_loop_Cons:
  "snd (connect_loop w pool (attempt # rest))
   = (case snd (connect_attempt w pool attempt) of
        Inl e \<Rightarrow> Inl e
      | Inr Return \<Rightarrow> Inr ()
      | Inr Continue \<Rightarrow> snd (connect_loop w pool rest))"
  by (cases "connect_attempt w pool attempt")
     (auto split: sum.splits loop_step.splits prod.splits)

lemma connect_attempt_one_connect:
  "length (filter is_connect (fst (connect_attempt w pool attempt))) = 1"
  by (simp add: connect_attempt_def split: option.splits exn.splits)

lemma connect_loop_bound:
  "length (filter is_connect (fst (connect_loop w pool attempts))) \<le> length attempts"
proof (induction attempts)
  case Nil
  then show ?case by simp
next
  case (Cons attempt rest)
  show ?case
    unfolding fst_connect_loop_Cons
    using Cons.IH connect_attempt_one_connect[of w pool attempt]
    by (auto split: sum.splits loop_step.splits)
qed

lemma get_db_config_no_connect: "filter is_connect (fst (get_db_config w)) = []"
  by (simp add: get_db_config_def Let_def)

lemma get_db_config_quiet:
  "filter (\<lambda>e. is_connect e \<or> is_sleep e) (fst (get_db_config w)) = []"
  by (simp add: get_db_config_def Let_def)

lemma get_database_connection_unfold:
  "snd (get_db_config w) = Inr config \<Longrightarrow>
   filter (\<lambda>e. is_connect e \<or> is_sleep e) (fst (get_database_connection w host port))
     = filter (\<lambda>e. is_connect e \<or> is_sleep e)
         (fst (connect_loop w (pool_config_of config host port) [0, 1, 2]))
   \<and> snd (get_database_connection w host port)
     = snd (connect_loop w (pool_config_of config host port) [0, 1, 2])"
  by (simp add: get_database_connection_def Let_def range_max_retries get_db_config_quiet
      pool_config_of_def)

lemma sample_config_direct: "snd (get_db_config direct_world) = Inr sample_config"
  by code_simp

section \<open>Facts about the tunnel\<close>

lemma terminate_tunnel_returns: "snd (terminate_tunnel w b) = Inr ()"
  by (simp add: terminate_tunnel_def split: option.splits)

lemma log_tunnel_output_returns: "snd (log_tunnel_output w) = Inr ()"
  by (simp add: log_tunnel_output_def split: sum.splits prod.splits)

lemma terminate_tunnel_db: "filter db_event (fst (terminate_tunnel w b)) = []"
  by (simp add: terminate_tunnel_def split: option.splits)

lemma log_tunnel_output_db: "filter db_event (fst (log_tunnel_output w)) = []"
  by (simp add: log_tunnel_output_def split: sum.splits prod.splits)

text \<open>What the \<open>try\<close> statement around the process does, by the outcome of \<open>Popen\<close>.\<close>

lemma run_tunnel_failed:
  assumes "popen w cmd = Some e"
  shows "run_tunnel w cmd established local_port body
         = ([Popen cmd, Log ERROR (''maybe_ssh_tunnel: Error starting SSH tunnel: '' @ exn_str e)]
            @ fst (terminate_tunnel w False), Inl e)"
  by (rule prod_eqI) (simp_all add: run_tunnel_def assms terminate_tunnel_returns)

lemma run_tunnel_started:
  assumes "popen w cmd = None"
  shows "fst (run_tunnel w cmd established local_port body)
         = [Popen cmd, Sleep 1, Log INFO established] @ fst (log_tunnel_output w)
           @ fst (body (''127.0.0.1'', local_port))
           @ (case snd (body (''127.0.0.1'', local_port)) of
                Inl e \<Rightarrow> [Log ERROR (''maybe_ssh_tunnel: Error starting SSH tunnel: '' @ exn_str e)]
              | Inr x \<Rightarrow> [])
           @ fst (terminate_tunnel w True)"
    and "snd (run_tunnel w cmd established local_port body) = snd (body (''127.0.0.1'', local_port))"
  by (simp_all add: run_tunnel_def assms terminate_tunnel_returns log_tunnel_output_returns
      split: sum.splits)

lemma run_tunnel_db:
  assumes "\<And>endpoint. filter db_event (fst (body endpoint)) = []"
  shows "filter db_event (fst (run_tunnel w cmd established local_port body)) = []"
proof (cases "popen w cmd")
  case None
  then show ?thesis
    by (simp add: run_tunnel_started assms terminate_tunnel_db log_tunnel_output_db
        split: sum.splits)
next
  case (Some e)
  then show ?thesis by (simp add: run_tunnel_failed terminate_tunnel_db)
qed

lemma direct_endpoint_db:
  assumes "\<And>endpoint. filter db_event (fst (body endpoint)) = []"
  shows "filter db_event (fst (direct_endpoint w body)) = []"
  by (simp add: direct_endpoint_def assms split: sum.splits)

lemma ssh_endpoint_db:
  assumes "\<And>endpoint. filter db_event (fst (body endpoint)) = []"
  shows "filter db_event (fst (ssh_endpoint w body)) = []"
  by (simp add: ssh_endpoint_def Let_def run_tunnel_db[OF assms] split: sum.splits option.splits)

text \<open>The tunnel manager itself never reaches the database: only the body can.\<close>

lemma tunnel_db_events:
  assumes "\<And>endpoint. filter db_event (fst (body endpoint)) = []"
  shows "filter db_event (fst (maybe_ssh_tunnel w body)) = []"
  by (simp add: maybe_ssh_tunnel_def direct_endpoint_db[OF assms] ssh_endpoint_db[OF assms])

lemma validate_empty: "validate_sql_query [] = (True, ''Query is allowed'')"
  by code_simp

lemma execute_sql_tool_guarded:
  assumes "dict_get_default arguments ''query'' (PyStr []) = PyStr q"
    and "py_strip q = [] \<or> fst (validate_sql_query (py_strip q)) = False"
  shows "fst (execute_sql_tool w host port arguments)
           = fst (handler_log ''execute_sql_tool'' host port arguments)"
    and "snd (execute_sql_tool w host port arguments)
           = Inr (text_result (if py_strip q = [] then ''No SQL query provided''
                               else ''Query not allowed: '' @ snd (validate_sql_query (py_strip q))))"
  using assms
  by (auto simp: execute_sql_tool_def query_argument_def handler_log_def validate_empty
      split: prod.splits)

lemma handler_log_db: "filter db_event (fst (handler_log f host port arguments)) = []"
  by (simp add: handler_log_def)

lemma dispatch_execute_sql_guarded:
  assumes "dict_get_default arguments ''query'' (PyStr []) = PyStr q"
    and "py_strip q = [] \<or> fst (validate_sql_query (py_strip q)) = False"
  shows "filter db_event (fst (dispatch w ''execute_sql'' arguments endpoint)) = []"
  by (cases endpoint)
     (simp add: dispatch_def execute_sql_tool_guarded[OF assms] handler_log_db)

section \<open>Facts about the handlers\<close>

lemma close_swallowed:
  assumes "\<And>e. snd (h e) = Inr ()"
  shows "snd (try_except (close_cursor_and_connection w b) h) = Inr ()"
  by (simp add: close_cursor_and_connection_def assms split: option.splits)

lemma run_query_single: "snd (run_query w q) = Inr r \<Longrightarrow> \<exists>t. r = text_result t"
  by (auto simp: run_query_def split: sum.splits if_splits)

lemma query_failed_single: "snd (query_failed e) = Inr r \<Longrightarrow> \<exists>t. r = text_result t"
  by (cases e) (auto simp: query_failed_def)

lemma execute_sql_tool_single:
  "snd (execute_sql_tool w host port arguments) = Inr r \<Longrightarrow> \<exists>t. r = text_result t"
  by (auto simp: execute_sql_tool_def Let_def close_swallowed
      split: sum.splits if_splits prod.splits dest: run_query_single query_failed_single)

lemma describe_schema_single: "snd (describe_schema w tn) = Inr r \<Longrightarrow> \<exists>t. r = text_result t"
  by (auto simp: describe_schema_def split: sum.splits if_splits)

lemma get_schema_info_tool_single:
  "snd (get_schema_info_tool w host port arguments) = Inr r \<Longrightarrow> \<exists>t. r = text_result t"
  by (auto simp: get_schema_info_tool_def Let_def close_swallowed
      split: sum.splits if_splits exn.splits dest: describe_schema_single)

lemma sample_table_single: "snd (sample_table w tn limit) = Inr r \<Longrightarrow> \<exists>t. r = text_result t"
  by (auto simp: sample_table_def split: sum.splits if_splits)

lemma get_table_sample_tool_single:
  "snd (get_table_sample_tool w host port arguments) = Inr r \<Longrightarrow> \<exists>t. r = text_result t"
  by (auto simp: get_table_sample_tool_def Let_def close_swallowed
      split: sum.splits if_splits exn.splits dest: sample_table_single)

lemma get_reference_doc_single:
  "snd (get_reference_doc w) = Inr r \<Longrightarrow> \<exists>t. r = text_result t"
  by (auto simp: get_reference_doc_def split: sum.splits)

lemma dispatch_single:
  "snd (dispatch w name arguments endpoint) = Inr r \<Longrightarrow> \<exists>t. r = text_result t"
  by (cases endpoint)
     (auto simp: dispatch_def split: if_splits
       dest: execute_sql_tool_single get_schema_info_tool_single get_table_sample_tool_single
         get_reference_doc_single)

section \<open>What the tunnel manager passes on\<close>

lemma run_tunnel_outcome:
  "snd (run_tunnel w cmd established local_port body)
   = (case popen w cmd of None \<Rightarrow> snd (body (''127.0.0.1'', local_port)) | Some e \<Rightarrow> Inl e)"
  by (cases "popen w cmd") (simp_all add: run_tunnel_started run_tunnel_failed)

text \<open>
  The manager either raises before the body is reached, whatever the body is, or passes on
  the outcome of the body at the endpoint it yields.
\<close>

lemma direct_endpoint_outcome:
  "(\<exists>e. snd (direct_endpoint w body) = Inl e \<and> snd (direct_endpoint w body') = Inl e)
   \<or> (\<exists>endpoint. snd (direct_endpoint w body) = snd (body endpoint)
        \<and> snd (direct_endpoint w body') = snd (body' endpoint))"
  by (cases "py_int (getenv_default w ''MYSQL_PORT'' ''3306'')")
     (auto simp: direct_endpoint_def)

lemma ssh_endpoint_outcome:
  "(\<exists>e. snd (ssh_endpoint w body) = Inl e \<and> snd (ssh_endpoint w body') = Inl e)
   \<or> (\<exists>endpoint. snd (ssh_endpoint w body) = snd (body endpoint)
        \<and> snd (ssh_endpoint w body') = snd (body' endpoint))"
  by (auto simp: ssh_endpoint_def Let_def run_tunnel_outcome split: sum.splits option.splits)

lemma tunnel_outcome:
  "(\<exists>e. snd (maybe_ssh_tunnel w body) = Inl e \<and> snd (maybe_ssh_tunnel w body') = Inl e)
   \<or> (\<exists>endpoint. snd (maybe_ssh_tunnel w body) = snd (body endpoint)
        \<and> snd (maybe_ssh_tunnel w body') = snd (body' endpoint))"
  using direct_endpoint_outcome[of w body body'] ssh_endpoint_outcome[of w body body']
  by (simp add: maybe_ssh_tunnel_def)

lemma snd_call_tool:
  "snd (call_tool w name arguments)
   = (case snd (maybe_ssh_tunnel w (dispatch w name arguments)) of
        Inl e \<Rightarrow> Inr (text_result ''An error occurred while opening tunnels.'')
      | Inr r \<Rightarrow> Inr r)"
  by (simp add: call_tool_def split: sum.splits)

lemma dispatch_unknown:
  assumes "name \<notin> set [''execute_sql'', ''get_schema_info'', ''get_table_sample'', ''get_reference_doc'']"
  shows "snd (dispatch w name arguments endpoint) = Inr (text_result (''Unknown tool: '' @ name))"
  using assms by (cases endpoint) (simp add: dispatch_def)

section \<open>A tunnel that does not start\<close>

lemma ssh_config_message_entry:
  "\<not> starts_with ''get_database_connection: Connecting to '' (ssh_config_message a b c d e f g)"
  by (simp add: ssh_config_message_def)

lemma terminate_tunnel_quiet:
  "filter (\<lambda>e. db_event e \<or> factory_entry e) (fst (terminate_tunnel w b)) = []"
  by (simp add: terminate_tunnel_def split: option.splits)

lemma ssh_endpoint_launch_failure:
  assumes "\<forall>cmd. popen w cmd \<noteq> None"
  shows "(\<exists>e. snd (ssh_endpoint w body) = Inl e)
         \<and> filter (\<lambda>e. db_event e \<or> factory_entry e) (fst (ssh_endpoint w body)) = []"
proof -
  have p: "\<exists>e. popen w cmd = Some e" for cmd
  proof (cases "popen w cmd")
    case None
    with assms show ?thesis by blast
  next
    case (Some e)
    then show ?thesis by blast
  qed
  have r: "(\<exists>e. snd (run_tunnel w cmd est lp body) = Inl e)
           \<and> filter (\<lambda>e. db_event e \<or> factory_entry e) (fst (run_tunnel w cmd est lp body)) = []"
    for cmd est lp
  proof -
    from p obtain e where "popen w cmd = Some e" by blast
    then show ?thesis by (simp add: run_tunnel_failed terminate_tunnel_quiet)
  qed
  show ?thesis
    using r by (auto simp: ssh_endpoint_def Let_def ssh_config_message_entry
        split: sum.splits option.splits)
qed

section \<open>Facts about the kinds of events\<close>

lemma factory_kind_simps [simp]:
  "factory_kind (Log l msg)" "factory_kind (Connect config)" "factory_kind (Sleep seconds)"
  "\<not> factory_kind (Popen cmd)" "\<not> factory_kind Communicate" "\<not> factory_kind Terminate"
  "\<not> factory_kind Wait" "\<not> factory_kind Cursor" "\<not> factory_kind (Execute sql params)"
  "\<not> factory_kind Fetchall" "\<not> factory_kind CursorClose" "\<not> factory_kind ConnectionClose"
  "\<not> factory_kind ReadDoc"
  by (simp_all add: factory_kind_def)

lemma connect_attempt_kinds:
  "filter (\<lambda>e. \<not> factory_kind e) (fst (connect_attempt w pool attempt)) = []"
  by (simp add: connect_attempt_def split: option.splits exn.splits)

lemma connect_loop_kinds:
  "filter (\<lambda>e. \<not> factory_kind e) (fst (connect_loop w pool attempts)) = []"
proof (induction attempts)
  case Nil
  then show ?case by simp
next
  case (Cons attempt rest)
  show ?case
    unfolding fst_connect_loop_Cons
    using Cons.IH connect_attempt_kinds[of w pool attempt]
    by (simp split: sum.splits loop_step.splits)
qed

lemma get_db_config_kinds: "filter (\<lambda>e. \<not> factory_kind e) (fst (get_db_config w)) = []"
  by (simp add: get_db_config_def Let_def)

lemma get_database_connection_kinds:
  "filter (\<lambda>e. \<not> factory_kind e) (fst (get_database_connection w host port)) = []"
  by (simp add: get_database_connection_def Let_def connect_loop_kinds get_db_config_kinds
      split: sum.splits)

text \<open>A kind of event that the factory does not cause is absent from its trace.\<close>

lemma filter_other_kind:
  assumes "filter (\<lambda>e. \<not> K e) es = []" "\<And>e. K e \<Longrightarrow> \<not> P e"
  shows "filter P es = []"
  using assms by (induction es) (auto split: if_splits)

lemma open_cursor_filter:
  assumes "\<And>e. factory_kind e \<Longrightarrow> \<not> P e" "\<not> P Cursor"
  shows "filter P (fst (open_cursor w host port)) = []"
  using filter_other_kind[OF get_database_connection_kinds[of w host port], of P] assms
  by (simp add: open_cursor_def split: sum.splits)

lemma close_filter:
  assumes "\<not> P CursorClose" "\<not> P ConnectionClose"
  shows "filter P (fst (close_cursor_and_connection w b)) = []"
  using assms by (simp add: close_cursor_and_connection_def split: option.splits)

text \<open>Filtering goes through the case distinctions on outcomes.\<close>

lemma case_sum_ret_nil [simp]: "(case s of Inl e \<Rightarrow> fst (ret x) | Inr y \<Rightarrow> []) = []"
  by (cases s) simp_all

lemma filter_case_sum:
  "filter P (case s of Inl e \<Rightarrow> f e | Inr x \<Rightarrow> g x)
   = (case s of Inl e \<Rightarrow> filter P (f e) | Inr x \<Rightarrow> filter P (g x))"
  by (cases s) simp_all

lemma filter_case_exn:
  "filter P (case e of MySQLError msg \<Rightarrow> f msg | PyException cls msg \<Rightarrow> g cls msg)
   = (case e of MySQLError msg \<Rightarrow> filter P (f msg) | PyException cls msg \<Rightarrow> filter P (g cls msg))"
  by (cases e) simp_all

lemma filter_case_option:
  "filter P (case v of None \<Rightarrow> a | Some x \<Rightarrow> g x)
   = (case v of None \<Rightarrow> filter P a | Some x \<Rightarrow> filter P (g x))"
  by (cases v) simp_all

lemma case_sum_nil [simp]: "(case s of Inl e \<Rightarrow> [] | Inr x \<Rightarrow> []) = []"
  by (cases s) simp_all

lemma case_exn_nil [simp]: "(case e of MySQLError msg \<Rightarrow> [] | PyException cls msg \<Rightarrow> []) = []"
  by (cases e) simp_all

lemma case_option_nil [simp]: "(case v of None \<Rightarrow> [] | Some x \<Rightarrow> []) = []"
  by (cases v) simp_all

lemma sample_table_executes:
  "filter is_execute (fst (sample_table w tn limit))
   = Execute (describe_sql tn) []
     # (case sum_bind (cursor_execute w (describe_sql tn) []) fetch of
          Inl e \<Rightarrow> [] | Inr columns \<Rightarrow> [Execute (sample_sql tn limit) []])"
  by (simp add: sample_table_def sum_bind_def split: sum.splits)

section \<open>Cleanup does not decide the result\<close>

text \<open>
  A world that differs only in what the four cleanup calls do: \<open>terminate\<close>, \<open>wait\<close>,
  \<open>cursor.close\<close> and \<open>connection.close\<close>.
\<close>

lemma world_cleanup:
  "environ (w\<lparr>terminate := a, wait := b, cursor_close := c, connection_close := d\<rparr>) = environ w"
  "popen (w\<lparr>terminate := a, wait := b, cursor_close := c, connection_close := d\<rparr>) = popen w"
  "communicate (w\<lparr>terminate := a, wait := b, cursor_close := c, connection_close := d\<rparr>)
     = communicate w"
  "mysql_connect (w\<lparr>terminate := a, wait := b, cursor_close := c, connection_close := d\<rparr>)
     = mysql_connect w"
  "new_cursor (w\<lparr>terminate := a, wait := b, cursor_close := c, connection_close := d\<rparr>)
     = new_cursor w"
  "cursor_execute (w\<lparr>terminate := a, wait := b, cursor_close := c, connection_close := d\<rparr>)
     = cursor_execute w"
  "read_doc (w\<lparr>terminate := a, wait := b, cursor_close := c, connection_close := d\<rparr>)
     = read_doc w"
  by simp_all

lemma getenv_cleanup:
  "getenv (w\<lparr>terminate := a, wait := b, cursor_close := c, connection_close := d\<rparr>) = getenv w"
  "getenv_default (w\<lparr>terminate := a, wait := b, cursor_close := c, connection_close := d\<rparr>)
     = getenv_default w"
  by (simp_all add: getenv_def getenv_default_def fun_eq_iff)

lemma get_db_config_cleanup:
  "get_db_config (w\<lparr>terminate := a, wait := b, cursor_close := c, connection_close := d\<rparr>)
   = get_db_config w"
  unfolding get_db_config_def getenv_cleanup ..

lemma connect_attempt_cleanup:
  "connect_attempt (w\<lparr>terminate := a, wait := b, cursor_close := c, connection_close := d\<rparr>) pool n
   = connect_attempt w pool n"
  unfolding connect_attempt_def world_cleanup ..

lemma connect_loop_cleanup:
  "connect_loop (w\<lparr>terminate := a, wait := b, cursor_close := c, connection_close := d\<rparr>) pool ns
   = connect_loop w pool ns"
  by (induction ns) (simp_all only: connect_loop.simps connect_attempt_cleanup)

lemma open_cursor_cleanup:
  "open_cursor (w\<lparr>terminate := a, wait := b, cursor_close := c, connection_close := d\<rparr>) host port
   = open_cursor w host port"
  unfolding open_cursor_def get_database_connection_def get_db_config_cleanup connect_loop_cleanup
    world_cleanup ..

lemma run_query_cleanup:
  "run_query (w\<lparr>terminate := a, wait := b, cursor_close := c, connection_close := d\<rparr>) q
   = run_query w q"
  unfolding run_query_def world_cleanup ..

lemma describe_schema_cleanup:
  "describe_schema (w\<lparr>terminate := a, wait := b, cursor_close := c, connection_close := d\<rparr>) tn
   = describe_schema w tn"
  unfolding describe_schema_def world_cleanup ..

lemma sample_table_cleanup:
  "sample_table (w\<lparr>terminate := a, wait := b, cursor_close := c, connection_close := d\<rparr>) tn l
   = sample_table w tn l"
  unfolding sample_table_def world_cleanup ..

lemma swallow_pass [simp]:
  "(case s of Inl e \<Rightarrow> snd (ret ()) | Inr (x::unit) \<Rightarrow> Inr x) = Inr ()"
  by (cases s) simp_all

lemma swallow_logged [simp]:
  "(case s of Inl e \<Rightarrow> snd (logger l (m e)) | Inr (x::unit) \<Rightarrow> Inr x) = Inr ()"
  by (cases s) simp_all

text \<open>The outcome of a handler is the outcome of its \<open>try\<close> block with its handlers.\<close>

lemma snd_execute_sql_tool:
  "snd (execute_sql_tool w host port arguments)
   = (case query_argument arguments of
        Inl e \<Rightarrow> Inl e
      | Inr query \<Rightarrow>
          if query = [] then Inr (text_result ''No SQL query provided'')
          else if \<not> fst (validate_sql_query query)
          then Inr (text_result (''Query not allowed: '' @ snd (validate_sql_query query)))
          else snd (try_except (io_seq (open_cursor w host port) (run_query w query)) query_failed))"
  by (simp add: execute_sql_tool_def Let_def handler_log_def close_swallowed
      split: sum.splits prod.splits)

lemma snd_get_schema_info_tool:
  "snd (get_schema_info_tool w host port arguments)
   = snd (try_except_mysql
            (io_seq (open_cursor w host port)
               (describe_schema w (dict_get arguments ''table_name'')))
            (\<lambda>msg. io_seq (logger ERROR (''Schema info error: '' @ msg))
                      (ret (text_result (''Schema error: '' @ msg)))))"
  by (simp add: get_schema_info_tool_def Let_def handler_log_def close_swallowed
      del: snd_try_except_mysql)

lemma snd_get_table_sample_tool:
  "snd (get_table_sample_tool w host port arguments)
   = (case py_min (dict_get_default arguments ''limit'' (PyInt 5)) 20 of
        Inl e \<Rightarrow> Inl e
      | Inr limit \<Rightarrow>
          if \<not> truthy (dict_get arguments ''table_name'')
          then Inr (text_result ''Table name is required'')
          else snd (try_except_mysql
                      (io_seq (open_cursor w host port)
                         (sample_table w (dict_get arguments ''table_name'') limit))
                      (\<lambda>msg. io_seq (logger ERROR (''Table sample error: '' @ msg))
                                (ret (text_result (''Table sample error: '' @ msg))))))"
  by (simp add: get_table_sample_tool_def Let_def handler_log_def close_swallowed
      del: snd_try_except_mysql split: sum.splits)

lemma get_reference_doc_cleanup:
  "get_reference_doc (w\<lparr>terminate := a, wait := b, cursor_close := c, connection_close := d\<rparr>)
   = get_reference_doc w"
  unfolding get_reference_doc_def world_cleanup ..

lemma execute_sql_tool_cleanup:
  "snd (execute_sql_tool (w\<lparr>terminate := a, wait := b, cursor_close := c, connection_close := d\<rparr>)
          host port arguments)
   = snd (execute_sql_tool w host port arguments)"
  unfolding snd_execute_sql_tool open_cursor_cleanup run_query_cleanup ..

lemma get_schema_info_tool_cleanup:
  "snd (get_schema_info_tool (w\<lparr>terminate := a, wait := b, cursor_close := c, connection_close := d\<rparr>)
          host port arguments)
   = snd (get_schema_info_tool w host port arguments)"
  unfolding snd_get_schema_info_tool open_cursor_cleanup describe_schema_cleanup ..

lemma get_table_sample_tool_cleanup:
  "snd (get_table_sample_tool (w\<lparr>terminate := a, wait := b, cursor_close := c, connection_close := d\<rparr>)
          host port arguments)
   = snd (get_table_sample_tool w host port arguments)"
  unfolding snd_get_table_sample_tool open_cursor_cleanup sample_table_cleanup ..

lemma dispatch_cleanup:
  "snd (dispatch (w\<lparr>terminate := a, wait := b, cursor_close := c, connection_close := d\<rparr>)
          name arguments endpoint)
   = snd (dispatch w name arguments endpoint)"
  by (cases endpoint)
     (simp add: dispatch_def execute_sql_tool_cleanup get_schema_info_tool_cleanup
       get_table_sample_tool_cleanup get_reference_doc_cleanup)

lemma tunnel_cleanup:
  assumes "\<And>endpoint. snd (body' endpoint) = snd (body endpoint)"
  shows "snd (maybe_ssh_tunnel (w\<lparr>terminate := a, wait := b, cursor_close := c, connection_close := d\<rparr>) body')
         = snd (maybe_ssh_tunnel w body)"
proof -
  let ?w = "w\<lparr>terminate := a, wait := b, cursor_close := c, connection_close := d\<rparr>"
  have d: "snd (direct_endpoint ?w body') = snd (direct_endpoint w body)"
    by (simp add: direct_endpoint_def getenv_cleanup assms split: sum.splits)
  have r: "snd (run_tunnel ?w cmd est lp body') = snd (run_tunnel w cmd est lp body)" for cmd est lp
    by (cases "popen w cmd") (simp_all add: run_tunnel_outcome world_cleanup assms)
  have s: "snd (ssh_endpoint ?w body') = snd (ssh_endpoint w body)"
    by (simp add: ssh_endpoint_def Let_def getenv_cleanup r split: sum.splits option.splits)
  show ?thesis
    by (simp add: maybe_ssh_tunnel_def use_ssh_def getenv_cleanup d s)
qed

text \<open>
  Whatever the cleanup calls do, the result of the call is the same: a failure while
  closing or terminating is swallowed and does not replace the result.
\<close>

lemma cleanup_never_decides:
  "snd (call_tool (w\<lparr>terminate := a, wait := b, cursor_close := c, connection_close := d\<rparr>)
          name arguments)
   = snd (call_tool w name arguments)"
  by (simp add: snd_call_tool tunnel_cleanup[of _ "dispatch w name arguments"] dispatch_cleanup)

section \<open>The validator: claims\<close>

text \<open>
  Claim C1, as amended. A query of ASCII characters in which a restricted command occurs
  as a whole word, in any case, is rejected, and the reason names the first command of
  the list that occurs in it so; that is the command itself when no other one occurs. A
  query of ASCII characters in which no restricted command occurs as a whole word passes
  the loop over the commands.
\<close>

theorem validate_rejects_keywords:
  "(py_isascii query \<and> k \<in> set restricted_commands \<and> occurs_as_word k query \<longrightarrow>
      fst (validate_sql_query query) = False
      \<and> (\<exists>first. find (\<lambda>c. occurs_as_word c query) restricted_commands = Some first
            \<and> validate_sql_query query = (False, command_reason first))
      \<and> ((\<forall>c\<in>set restricted_commands. occurs_as_word c query \<longrightarrow> c = k) \<longrightarrow>
            validate_sql_query query = (False, command_reason k)))
   \<and> (py_isascii query' \<and> (\<forall>c\<in>set restricted_commands. \<not> occurs_as_word c query') \<longrightarrow>
        check_commands restricted_commands (py_upper (py_strip query')) = None)"
proof (intro conjI impI)
  assume h: "py_isascii query \<and> k \<in> set restricted_commands \<and> occurs_as_word k query"
  then have a: "py_isascii query" by simp
  from h obtain first where f: "find (\<lambda>c. occurs_as_word c query) restricted_commands = Some first"
    by (cases "find (\<lambda>c. occurs_as_word c query) restricted_commands")
       (auto simp: find_None_iff)
  then have v: "validate_sql_query query = (False, command_reason first)"
    by (simp add: validate_sql_query_def check_commands_find[OF restricted_commands_words a])
  show "fst (validate_sql_query query) = False" using v by simp
  show "\<exists>first. find (\<lambda>c. occurs_as_word c query) restricted_commands = Some first
            \<and> validate_sql_query query = (False, command_reason first)"
    using f v by blast
  assume only: "\<forall>c\<in>set restricted_commands. occurs_as_word c query \<longrightarrow> c = k"
  from f have "first \<in> set restricted_commands \<and> occurs_as_word first query"
    by (auto simp: find_Some_iff)
  then have "first = k" using only by blast
  then show "validate_sql_query query = (False, command_reason k)" using v by simp
next
  assume h: "py_isascii query' \<and> (\<forall>c\<in>set restricted_commands. \<not> occurs_as_word c query')"
  then have a: "py_isascii query'" by simp
  from h have "find (\<lambda>c. occurs_as_word c query') restricted_commands = None"
    by (simp add: find_None_iff)
  then show "check_commands restricted_commands (py_upper (py_strip query')) = None"
    by (simp add: check_commands_find[OF restricted_commands_words a])
qed

text \<open>
  The theorem at \<open>drop t\<close>, where \<open>DROP\<close> is the only command, and at
  \<open>dropdown\<close>, where the command is part of a longer word.
\<close>

theorem validate_rejects_keywords_witness:
  "validate_sql_query ''drop t'' = (False, command_reason ''DROP'')
   \<and> check_commands restricted_commands (py_upper (py_strip ''dropdown'')) = None"
proof -
  have h0: "py_isascii ''drop t''" "py_isascii ''dropdown''"
    by code_simp+
  have h1: "''DROP'' \<in> set restricted_commands
            \<and> occurs_as_word ''DROP'' ''drop t''"
    by code_simp
  have h2: "\<forall>c\<in>set restricted_commands.
              occurs_as_word c ''drop t'' \<longrightarrow> c = ''DROP''"
    by code_simp
  have h3: "\<forall>c\<in>set restricted_commands. \<not> occurs_as_word c ''dropdown''"
    by code_simp
  from validate_rejects_keywords[where k="''DROP''" and query="''drop t''"
      and query'="''dropdown''"] h0 h1 h2 h3
  show ?thesis by blast
qed

text \<open>
  Claim C1 as it is written fails: \<open>DELETE\<close> occurs as a whole word in
  \<open>delete drop\<close>, and the reason names \<open>DROP\<close>, the earlier command of the list, and
  not \<open>DELETE\<close>.
\<close>

theorem validate_names_other_keyword:
  "''DELETE'' \<in> set restricted_commands
   \<and> occurs_as_word ''DELETE'' ''delete drop''
   \<and> validate_sql_query ''delete drop'' = (False, command_reason ''DROP'')
   \<and> \<not> py_in ''DELETE'' (snd (validate_sql_query ''delete drop''))"
  by code_simp

text \<open>
  Claim C4, as amended. A query with two or more semicolons is rejected; a query that
  contains \<open>--\<close> or \<open>/*\<close> is rejected; a query of ASCII characters with at most
  one semicolon, neither comment marker and no restricted command as a whole word is
  allowed.
\<close>

theorem validate_structure:
  "(2 \<le> py_count query CHR '';'' \<longrightarrow> fst (validate_sql_query query) = False)
   \<and> (py_in ''--'' query \<or> py_in ''/*'' query \<longrightarrow> fst (validate_sql_query query) = False)
   \<and> (py_isascii query
        \<and> py_count query CHR '';'' \<le> 1 \<and> \<not> py_in ''--'' query \<and> \<not> py_in ''/*'' query
        \<and> (\<forall>c\<in>set restricted_commands. \<not> occurs_as_word c query)
       \<longrightarrow> validate_sql_query query = (True, ''Query is allowed''))"
proof (intro conjI impI)
  assume "2 \<le> py_count query CHR '';''"
  then have "py_in '';'' query \<and> py_count query CHR '';'' > 1"
    using py_count_pos[of query "CHR '';''"] by (simp add: py_in_single)
  then show "fst (validate_sql_query query) = False"
    by (auto simp: validate_sql_query_def split: option.splits dest: check_commands_rejects)
next
  assume "py_in ''--'' query \<or> py_in ''/*'' query"
  then show "fst (validate_sql_query query) = False"
    by (auto simp: validate_sql_query_def split: option.splits dest: check_commands_rejects)
next
  assume h: "py_isascii query
        \<and> py_count query CHR '';'' \<le> 1 \<and> \<not> py_in ''--'' query \<and> \<not> py_in ''/*'' query
        \<and> (\<forall>c\<in>set restricted_commands. \<not> occurs_as_word c query)"
  then have a: "py_isascii query" by simp
  from h have "find (\<lambda>c. occurs_as_word c query) restricted_commands = None"
    by (simp add: find_None_iff)
  then have "check_commands restricted_commands (py_upper (py_strip query)) = None"
    by (simp add: check_commands_find[OF restricted_commands_words a])
  then show "validate_sql_query query = (True, ''Query is allowed'')"
    using h by (simp add: validate_sql_query_def)
qed

text \<open>
  The theorem at one query for each of its four hypotheses.
\<close>

theorem validate_structure_witness:
  "fst (validate_sql_query ''a;b;'') = False
   \<and> fst (validate_sql_query ''a--'') = False
   \<and> fst (validate_sql_query ''a/*'') = False
   \<and> validate_sql_query ''select 1;'' = (True, ''Query is allowed'')"
proof -
  have h1: "2 \<le> py_count ''a;b;'' CHR '';''" by code_simp
  have h2: "py_in ''--'' ''a--''" by code_simp
  have h3: "py_in ''/*'' ''a/*''" by code_simp
  have h4: "py_isascii ''select 1;'' \<and> py_count ''select 1;'' CHR '';'' \<le> 1
        \<and> \<not> py_in ''--'' ''select 1;'' \<and> \<not> py_in ''/*'' ''select 1;''
        \<and> (\<forall>c\<in>set restricted_commands. \<not> occurs_as_word c ''select 1;'')"
    by code_simp
  from validate_structure[of "''a;b;''"]
    validate_structure[of "''a--''"]
    validate_structure[of "''a/*''"]
    validate_structure[of "''select 1;''"] h1 h2 h3 h4
  show ?thesis by blast
qed

text \<open>
  Claim C4 as it is written fails beyond ASCII. The query \<open>k\<close>, U+0131, \<open>ll 1\<close>, whose
  second letter is the dotless i, has no semicolon, no comment marker and no restricted
  command in it, as a whole word or as a part of one; \<open>str.upper\<close> makes it \<open>KILL 1\<close>,
  and the validator rejects it as \<open>KILL\<close>.
\<close>

theorem validate_rejects_dotless_i:
  "py_count (''k'' @ [CHR 0xC4, CHR 0xB1] @ ''ll 1'') CHR '';'' \<le> 1
   \<and> \<not> py_in ''--'' (''k'' @ [CHR 0xC4, CHR 0xB1] @ ''ll 1'')
   \<and> \<not> py_in ''/*'' (''k'' @ [CHR 0xC4, CHR 0xB1] @ ''ll 1'')
   \<and> list_all (\<lambda>c. \<not> occurs_as_word c (''k'' @ [CHR 0xC4, CHR 0xB1] @ ''ll 1''))
         restricted_commands
   \<and> list_all (\<lambda>c. \<not> py_in c (map upper_char (''k'' @ [CHR 0xC4, CHR 0xB1] @ ''ll 1'')))
         restricted_commands
   \<and> validate_sql_query (''k'' @ [CHR 0xC4, CHR 0xB1] @ ''ll 1'')
       = (False, ''Command '' @ [CHR 0x27] @ ''KILL'' @ [CHR 0x27]
                 @ '' is not allowed for security reasons'')"
  by code_simp



section \<open>The connection factory: claims\<close>

text \<open>
  Claim C7. \<open>get_database_connection\<close> calls the driver at most three times. With a
  valid configuration it returns at the first attempt that succeeds, after one sleep of
  one second behind each failed attempt; when the three attempts fail with driver errors
  it has slept after the first two only and raises the error of the third.
\<close>

theorem connection_retries:
  "length (filter is_connect (fst (get_database_connection w host port))) \<le> 3
   \<and> (snd (get_db_config w) = Inr config \<longrightarrow>
        (\<exists>pool.
          (mysql_connect w 0 = None \<longrightarrow>
             snd (get_database_connection w host port) = Inr ()
             \<and> filter (\<lambda>e. is_connect e \<or> is_sleep e) (fst (get_database_connection w host port))
               = [Connect pool])
        \<and> (mysql_connect w 0 = Some (MySQLError m0) \<and> mysql_connect w 1 = None \<longrightarrow>
             snd (get_database_connection w host port) = Inr ()
             \<and> filter (\<lambda>e. is_connect e \<or> is_sleep e) (fst (get_database_connection w host port))
               = [Connect pool, Sleep 1, Connect pool])
        \<and> (mysql_connect w 0 = Some (MySQLError m0) \<and> mysql_connect w 1 = Some (MySQLError m1)
            \<and> mysql_connect w 2 = None \<longrightarrow>
             snd (get_database_connection w host port) = Inr ()
             \<and> filter (\<lambda>e. is_connect e \<or> is_sleep e) (fst (get_database_connection w host port))
               = [Connect pool, Sleep 1, Connect pool, Sleep 1, Connect pool])
        \<and> (mysql_connect w 0 = Some (MySQLError m0) \<and> mysql_connect w 1 = Some (MySQLError m1)
            \<and> mysql_connect w 2 = Some (MySQLError m2) \<longrightarrow>
             snd (get_database_connection w host port) = Inl (MySQLError m2)
             \<and> filter (\<lambda>e. is_connect e \<or> is_sleep e) (fst (get_database_connection w host port))
               = [Connect pool, Sleep 1, Connect pool, Sleep 1, Connect pool])))"
proof (intro conjI impI)
  have "length (filter is_connect (fst (get_database_connection w host port)))
        \<le> length [0..<max_retries]"
    using connect_loop_bound[of w _ "[0..<max_retries]"]
    by (auto simp: get_database_connection_def Let_def get_db_config_no_connect
        split: sum.splits)
  then show "length (filter is_connect (fst (get_database_connection w host port))) \<le> 3"
    by (simp add: max_retries_def)
next
  assume cfg: "snd (get_db_config w) = Inr config"
  note u = get_database_connection_unfold[OF cfg, of host port]
  show "\<exists>pool.
          (mysql_connect w 0 = None \<longrightarrow>
             snd (get_database_connection w host port) = Inr ()
             \<and> filter (\<lambda>e. is_connect e \<or> is_sleep e) (fst (get_database_connection w host port))
               = [Connect pool])
        \<and> (mysql_connect w 0 = Some (MySQLError m0) \<and> mysql_connect w 1 = None \<longrightarrow>
             snd (get_database_connection w host port) = Inr ()
             \<and> filter (\<lambda>e. is_connect e \<or> is_sleep e) (fst (get_database_connection w host port))
               = [Connect pool, Sleep 1, Connect pool])
        \<and> (mysql_connect w 0 = Some (MySQLError m0) \<and> mysql_connect w 1 = Some (MySQLError m1)
            \<and> mysql_connect w 2 = None \<longrightarrow>
             snd (get_database_connection w host port) = Inr ()
             \<and> filter (\<lambda>e. is_connect e \<or> is_sleep e) (fst (get_database_connection w host port))
               = [Connect pool, Sleep 1, Connect pool, Sleep 1, Connect pool])
        \<and> (mysql_connect w 0 = Some (MySQLError m0) \<and> mysql_connect w 1 = Some (MySQLError m1)
            \<and> mysql_connect w 2 = Some (MySQLError m2) \<longrightarrow>
             snd (get_database_connection w host port) = Inl (MySQLError m2)
             \<and> filter (\<lambda>e. is_connect e \<or> is_sleep e) (fst (get_database_connection w host port))
               = [Connect pool, Sleep 1, Connect pool, Sleep 1, Connect pool])"
    apply (rule exI[of _ "pool_config_of config host port"])
    unfolding u[THEN conjunct1] u[THEN conjunct2]
    by (simp add: fst_connect_loop_Cons snd_connect_loop_Cons connect_attempt_events
        connect_attempt_outcome max_retries_def del: connect_loop.simps(2))
qed

text \<open>
  The theorem in four worlds: the first, the second, the third attempt succeeds, and none
  does.
\<close>

theorem connection_retries_witness:
  "snd (get_database_connection direct_world ''localhost'' 3306) = Inr ()
   \<and> snd (get_database_connection
            (direct_world\<lparr>mysql_connect := (\<lambda>attempt. if attempt < 1 then Some (MySQLError ''refused'') else None)\<rparr>)
            ''localhost'' 3306) = Inr ()
   \<and> snd (get_database_connection
            (direct_world\<lparr>mysql_connect := (\<lambda>attempt. if attempt < 2 then Some (MySQLError ''refused'') else None)\<rparr>)
            ''localhost'' 3306) = Inr ()
   \<and> snd (get_database_connection
            (direct_world\<lparr>mysql_connect := (\<lambda>attempt. Some (MySQLError (''refused '' @ py_str_int (int attempt))))\<rparr>)
            ''localhost'' 3306) = Inl (MySQLError ''refused 2'')"
proof -
  let ?w1 = "direct_world\<lparr>mysql_connect := (\<lambda>attempt. if attempt < 1 then Some (MySQLError ''refused'') else None)\<rparr>"
  let ?w2 = "direct_world\<lparr>mysql_connect := (\<lambda>attempt. if attempt < 2 then Some (MySQLError ''refused'') else None)\<rparr>"
  let ?w3 = "direct_world\<lparr>mysql_connect := (\<lambda>attempt. Some (MySQLError (''refused '' @ py_str_int (int attempt))))\<rparr>"
  have c0: "snd (get_db_config direct_world) = Inr sample_config" by code_simp
  have c1: "snd (get_db_config ?w1) = Inr sample_config" by code_simp
  have c2: "snd (get_db_config ?w2) = Inr sample_config" by code_simp
  have c3: "snd (get_db_config ?w3) = Inr sample_config" by code_simp
  have h0: "mysql_connect direct_world 0 = None" by (simp add: direct_world_def)
  have h1: "mysql_connect ?w1 0 = Some (MySQLError ''refused'') \<and> mysql_connect ?w1 1 = None"
    by simp
  have h2: "mysql_connect ?w2 0 = Some (MySQLError ''refused'')
            \<and> mysql_connect ?w2 1 = Some (MySQLError ''refused'') \<and> mysql_connect ?w2 2 = None"
    by simp
  have h3: "mysql_connect ?w3 0 = Some (MySQLError ''refused 0'')
            \<and> mysql_connect ?w3 1 = Some (MySQLError ''refused 1'')
            \<and> mysql_connect ?w3 2 = Some (MySQLError ''refused 2'')"
    by code_simp
  from connection_retries[of direct_world "''localhost''" 3306 sample_config] c0 h0
  have r0: "snd (get_database_connection direct_world ''localhost'' 3306) = Inr ()" by blast
  from connection_retries[of ?w1 "''localhost''" 3306 sample_config "''refused''"] c1 h1
  have r1: "snd (get_database_connection ?w1 ''localhost'' 3306) = Inr ()" by blast
  from connection_retries[of ?w2 "''localhost''" 3306 sample_config "''refused''" "''refused''"] c2 h2
  have r2: "snd (get_database_connection ?w2 ''localhost'' 3306) = Inr ()" by blast
  from connection_retries[of ?w3 "''localhost''" 3306 sample_config "''refused 0''"
      "''refused 1''" "''refused 2''"] c3 h3
  have r3: "snd (get_database_connection ?w3 ''localhost'' 3306) = Inl (MySQLError ''refused 2'')"
    by blast
  from r0 r1 r2 r3 show ?thesis by blast
qed

section \<open>The guards of execute_sql: claims\<close>

text \<open>
  Claim C2. When the query is empty after trimming, \<open>execute_sql_tool\<close> returns
  \<open>No SQL query provided\<close>; when the validator rejects the trimmed query, it returns
  \<open>Query not allowed\<close> with the reason. In both cases the handler does nothing but write
  its log record, and the whole call \<open>call_tool\<close> causes no event at the database
  driver: no connection, no cursor, no statement.
\<close>

theorem execute_sql_guards:
  "(dict_get_default arguments ''query'' (PyStr []) = PyStr q \<and> py_strip q = [] \<longrightarrow>
      snd (execute_sql_tool w host port arguments) = Inr (text_result ''No SQL query provided'')
      \<and> filter (\<lambda>e. \<not> is_log e) (fst (execute_sql_tool w host port arguments)) = []
      \<and> filter db_event (fst (call_tool w ''execute_sql'' arguments)) = [])
   \<and> (dict_get_default arguments ''query'' (PyStr []) = PyStr q
       \<and> validate_sql_query (py_strip q) = (False, reason) \<longrightarrow>
      snd (execute_sql_tool w host port arguments)
        = Inr (text_result (''Query not allowed: '' @ reason))
      \<and> filter (\<lambda>e. \<not> is_log e) (fst (execute_sql_tool w host port arguments)) = []
      \<and> filter db_event (fst (call_tool w ''execute_sql'' arguments)) = [])"
proof (intro conjI impI)
  assume h: "dict_get_default arguments ''query'' (PyStr []) = PyStr q \<and> py_strip q = []"
  then have a: "dict_get_default arguments ''query'' (PyStr []) = PyStr q"
    and b: "py_strip q = [] \<or> fst (validate_sql_query (py_strip q)) = False" by auto
  show "snd (execute_sql_tool w host port arguments) = Inr (text_result ''No SQL query provided'')"
    using execute_sql_tool_guarded(2)[OF a b] h by simp
  show "filter (\<lambda>e. \<not> is_log e) (fst (execute_sql_tool w host port arguments)) = []"
    using execute_sql_tool_guarded(1)[OF a b] by (simp add: handler_log_def)
  show "filter db_event (fst (call_tool w ''execute_sql'' arguments)) = []"
    using tunnel_db_events[of "dispatch w ''execute_sql'' arguments" w]
      dispatch_execute_sql_guarded[OF a b]
    by (simp add: call_tool_def split: sum.splits)
next
  assume h: "dict_get_default arguments ''query'' (PyStr []) = PyStr q
       \<and> validate_sql_query (py_strip q) = (False, reason)"
  then have a: "dict_get_default arguments ''query'' (PyStr []) = PyStr q"
    and b: "py_strip q = [] \<or> fst (validate_sql_query (py_strip q)) = False" by auto
  from h have ne: "py_strip q \<noteq> []" using validate_empty by auto
  show "snd (execute_sql_tool w host port arguments)
        = Inr (text_result (''Query not allowed: '' @ reason))"
    using execute_sql_tool_guarded(2)[OF a b] h ne by simp
  show "filter (\<lambda>e. \<not> is_log e) (fst (execute_sql_tool w host port arguments)) = []"
    using execute_sql_tool_guarded(1)[OF a b] by (simp add: handler_log_def)
  show "filter db_event (fst (call_tool w ''execute_sql'' arguments)) = []"
    using tunnel_db_events[of "dispatch w ''execute_sql'' arguments" w]
      dispatch_execute_sql_guarded[OF a b]
    by (simp add: call_tool_def split: sum.splits)
qed

text \<open>
  The theorem at a blank query in the direct world and at \<open>drop t\<close> behind a tunnel.
\<close>

theorem execute_sql_guards_witness:
  "snd (execute_sql_tool direct_world ''localhost'' 3306 [(''query'', PyStr ''  '')])
     = Inr (text_result ''No SQL query provided'')
   \<and> filter db_event (fst (call_tool direct_world ''execute_sql'' [(''query'', PyStr ''  '')])) = []
   \<and> snd (execute_sql_tool tunnel_world ''127.0.0.1'' 3330 [(''query'', PyStr ''drop t'')])
     = Inr (text_result (''Query not allowed: '' @ command_reason ''DROP''))
   \<and> filter db_event (fst (call_tool tunnel_world ''execute_sql'' [(''query'', PyStr ''drop t'')])) = []"
proof -
  have h1: "dict_get_default [(''query'', PyStr ''  '')] ''query'' (PyStr []) = PyStr ''  ''
            \<and> py_strip ''  '' = []"
    by code_simp
  have h2: "dict_get_default [(''query'', PyStr ''drop t'')] ''query'' (PyStr []) = PyStr ''drop t''
            \<and> validate_sql_query (py_strip ''drop t'') = (False, command_reason ''DROP'')"
    by code_simp
  from execute_sql_guards[of "[(''query'', PyStr ''  '')]" "''  ''" direct_world "''localhost''" 3306] h1
  have a: "snd (execute_sql_tool direct_world ''localhost'' 3306 [(''query'', PyStr ''  '')])
     = Inr (text_result ''No SQL query provided'')
     \<and> filter db_event (fst (call_tool direct_world ''execute_sql'' [(''query'', PyStr ''  '')])) = []"
    by blast
  from execute_sql_guards[of "[(''query'', PyStr ''drop t'')]" "''drop t''" tunnel_world
      "''127.0.0.1''" 3330 "command_reason ''DROP''"] h2
  have b: "snd (execute_sql_tool tunnel_world ''127.0.0.1'' 3330 [(''query'', PyStr ''drop t'')])
     = Inr (text_result (''Query not allowed: '' @ command_reason ''DROP''))
     \<and> filter db_event (fst (call_tool tunnel_world ''execute_sql'' [(''query'', PyStr ''drop t'')])) = []"
    by blast
  from a b show ?thesis by blast
qed

section \<open>The dispatcher: claims\<close>

text \<open>
  Claim C5. \<open>call_tool\<close> never raises and always returns one text block. When the tunnel
  manager yields an endpoint, an unknown name gives \<open>Unknown tool\<close> with the name. When
  the handler raises, or the tunnel manager raises before it yields, the result is the
  one generic error text.
\<close>

theorem call_tool_text_block:
  "(\<exists>t. snd (call_tool w name arguments) = Inr [TextContent ''text'' t])
   \<and> (name \<notin> set [''execute_sql'', ''get_schema_info'', ''get_table_sample'', ''get_reference_doc'']
       \<and> returned (maybe_ssh_tunnel w (\<lambda>endpoint. ret ())) \<longrightarrow>
        snd (call_tool w name arguments) = Inr [TextContent ''text'' (''Unknown tool: '' @ name)])
   \<and> ((\<forall>endpoint. \<exists>e. snd (dispatch w name arguments endpoint) = Inl e)
       \<or> \<not> returned (maybe_ssh_tunnel w (\<lambda>endpoint. ret ())) \<longrightarrow>
        snd (call_tool w name arguments)
          = Inr [TextContent ''text'' ''An error occurred while opening tunnels.''])"
proof (intro conjI impI)
  show "\<exists>t. snd (call_tool w name arguments) = Inr [TextContent ''text'' t]"
  proof (cases "snd (maybe_ssh_tunnel w (dispatch w name arguments))")
    case (Inl e)
    then show ?thesis by (simp add: snd_call_tool text_result_def)
  next
    case (Inr r)
    with tunnel_outcome[of w "dispatch w name arguments" "dispatch w name arguments"]
    obtain endpoint where "snd (dispatch w name arguments endpoint) = Inr r" by auto
    then obtain t where "r = text_result t" using dispatch_single by blast
    with Inr show ?thesis by (simp add: snd_call_tool text_result_def)
  qed
next
  assume h: "name \<notin> set [''execute_sql'', ''get_schema_info'', ''get_table_sample'', ''get_reference_doc'']
       \<and> returned (maybe_ssh_tunnel w (\<lambda>endpoint. ret ()))"
  then have r: "\<exists>x. snd (maybe_ssh_tunnel w (\<lambda>endpoint. ret ())) = Inr x"
    by (simp add: returned_iff)
  from tunnel_outcome[of w "\<lambda>endpoint. ret ()" "dispatch w name arguments"] r
  obtain endpoint where "snd (maybe_ssh_tunnel w (dispatch w name arguments))
      = snd (dispatch w name arguments endpoint)" by auto
  then show "snd (call_tool w name arguments) = Inr [TextContent ''text'' (''Unknown tool: '' @ name)]"
    using h dispatch_unknown[of name w arguments endpoint]
    by (simp add: snd_call_tool text_result_def)
next
  assume h: "(\<forall>endpoint. \<exists>e. snd (dispatch w name arguments endpoint) = Inl e)
       \<or> \<not> returned (maybe_ssh_tunnel w (\<lambda>endpoint. ret ()))"
  have "\<exists>e. snd (maybe_ssh_tunnel w (dispatch w name arguments)) = Inl e"
  proof -
    from tunnel_outcome[of w "dispatch w name arguments" "\<lambda>endpoint. ret ()"]
    consider (raised) e where "snd (maybe_ssh_tunnel w (dispatch w name arguments)) = Inl e"
      | (passed) endpoint where
          "snd (maybe_ssh_tunnel w (dispatch w name arguments)) = snd (dispatch w name arguments endpoint)"
          "snd (maybe_ssh_tunnel w (\<lambda>endpoint. ret ())) = Inr ()"
      by auto
    then show ?thesis
    proof cases
      case raised
      then show ?thesis by blast
    next
      case passed
      then have "returned (maybe_ssh_tunnel w (\<lambda>endpoint. ret ()))" by (simp add: returned_iff)
      with h have "\<exists>e. snd (dispatch w name arguments endpoint) = Inl e" by blast
      with passed show ?thesis by simp
    qed
  qed
  then show "snd (call_tool w name arguments)
          = Inr [TextContent ''text'' ''An error occurred while opening tunnels.'']"
    by (auto simp: snd_call_tool text_result_def)
qed

text \<open>
  The theorem at an unknown name in the direct world, at a query that is not a string,
  for which \<open>strip\<close> raises in the handler, and at a tunnel whose process does not start.
\<close>

theorem call_tool_text_block_witness:
  "snd (call_tool direct_world ''nope'' []) = Inr [TextContent ''text'' ''Unknown tool: nope'']
   \<and> snd (call_tool direct_world ''execute_sql'' [(''query'', PyInt 5)])
       = Inr [TextContent ''text'' ''An error occurred while opening tunnels.'']
   \<and> snd (call_tool (tunnel_world\<lparr>popen := (\<lambda>cmd. Some (PyException ''FileNotFoundError'' ''ssh''))\<rparr>)
            ''nope'' [])
       = Inr [TextContent ''text'' ''An error occurred while opening tunnels.'']"
proof -
  let ?w = "tunnel_world\<lparr>popen := (\<lambda>cmd. Some (PyException ''FileNotFoundError'' ''ssh''))\<rparr>"
  have n: "''nope'' \<notin> set [''execute_sql'', ''get_schema_info'', ''get_table_sample'', ''get_reference_doc'']"
    by simp
  have r: "returned (maybe_ssh_tunnel direct_world (\<lambda>endpoint. ret ()))" by code_simp
  have u: "use_ssh ?w" by code_simp
  have p: "\<forall>cmd. popen ?w cmd \<noteq> None" by simp
  have f: "\<not> returned (maybe_ssh_tunnel ?w (\<lambda>endpoint. ret ()))"
    using ssh_endpoint_launch_failure[OF p, of "\<lambda>endpoint. ret ()"] u
    by (auto simp: maybe_ssh_tunnel_def returned_iff)
  have x: "\<forall>endpoint. \<exists>e. snd (dispatch direct_world ''execute_sql'' [(''query'', PyInt 5)] endpoint) = Inl e"
    by (simp add: dispatch_def execute_sql_tool_def query_argument_def dict_get_default_def
        handler_log_def split: prod.splits)
  from call_tool_text_block[of direct_world "''nope''" "[]"] n r
  have a: "snd (call_tool direct_world ''nope'' []) = Inr [TextContent ''text'' (''Unknown tool: '' @ ''nope'')]"
    by blast
  from call_tool_text_block[of direct_world "''execute_sql''" "[(''query'', PyInt 5)]"] x
  have b: "snd (call_tool direct_world ''execute_sql'' [(''query'', PyInt 5)])
       = Inr [TextContent ''text'' ''An error occurred while opening tunnels.'']"
    by blast
  from call_tool_text_block[of ?w "''nope''" "[]"] f
  have c: "snd (call_tool ?w ''nope'' [])
       = Inr [TextContent ''text'' ''An error occurred while opening tunnels.'']"
    by blast
  from a b c show ?thesis by simp
qed

text \<open>
  Claim C9. With tunnelling enabled, when the forwarding process cannot be started the
  call returns the generic error text, and its trace has no event at the database driver
  and no entry record of \<open>get_database_connection\<close>: the connection factory is not
  called.
\<close>

theorem tunnel_launch_failure:
  "use_ssh w \<and> (\<forall>cmd. popen w cmd \<noteq> None) \<longrightarrow>
     snd (call_tool w name arguments)
       = Inr [TextContent ''text'' ''An error occurred while opening tunnels.'']
     \<and> filter (\<lambda>e. db_event e \<or> factory_entry e) (fst (call_tool w name arguments)) = []"
proof
  assume h: "use_ssh w \<and> (\<forall>cmd. popen w cmd \<noteq> None)"
  then have f: "\<forall>cmd. popen w cmd \<noteq> None" by simp
  from ssh_endpoint_launch_failure[OF f, of "dispatch w name arguments"]
  obtain e where e: "snd (ssh_endpoint w (dispatch w name arguments)) = Inl e"
    and q: "filter (\<lambda>e. db_event e \<or> factory_entry e)
              (fst (ssh_endpoint w (dispatch w name arguments))) = []"
    by blast
  from h e have s: "snd (maybe_ssh_tunnel w (dispatch w name arguments)) = Inl e"
    by (simp add: maybe_ssh_tunnel_def)
  from h q have t: "filter (\<lambda>e. db_event e \<or> factory_entry e)
                      (fst (maybe_ssh_tunnel w (dispatch w name arguments))) = []"
    by (simp add: maybe_ssh_tunnel_def)
  show "snd (call_tool w name arguments)
       = Inr [TextContent ''text'' ''An error occurred while opening tunnels.'']
     \<and> filter (\<lambda>e. db_event e \<or> factory_entry e) (fst (call_tool w name arguments)) = []"
    using s t by (simp add: call_tool_def text_result_def)
qed

text \<open>
  The theorem in the tunnel world with a \<open>Popen\<close> that raises.
\<close>

theorem tunnel_launch_failure_witness:
  "snd (call_tool (tunnel_world\<lparr>popen := (\<lambda>cmd. Some (PyException ''FileNotFoundError'' ''ssh''))\<rparr>)
          ''get_schema_info'' [])
     = Inr [TextContent ''text'' ''An error occurred while opening tunnels.'']
   \<and> filter (\<lambda>e. db_event e \<or> factory_entry e)
       (fst (call_tool (tunnel_world\<lparr>popen := (\<lambda>cmd. Some (PyException ''FileNotFoundError'' ''ssh''))\<rparr>)
              ''get_schema_info'' [])) = []"
proof -
  let ?w = "tunnel_world\<lparr>popen := (\<lambda>cmd. Some (PyException ''FileNotFoundError'' ''ssh''))\<rparr>"
  have u: "use_ssh ?w" by code_simp
  have p: "\<forall>cmd. popen ?w cmd \<noteq> None" by simp
  from tunnel_launch_failure[of ?w "''get_schema_info''" "[]"] u p show ?thesis by blast
qed

section \<open>The sample limit: claims\<close>

text \<open>
  Claim C8. With a table name and a limit \<open>n\<close>, which is 5 when none is given, the only
  statements that \<open>get_table_sample_tool\<close> submits are the \<open>DESCRIBE\<close> and the
  \<open>SELECT\<close> whose \<open>LIMIT\<close> is the smaller of \<open>n\<close> and 20, and the \<open>SELECT\<close> is
  submitted once the cursor is open and the \<open>DESCRIBE\<close> has given its rows. There is no
  lower bound: zero and negative limits go into the statement as they are.
\<close>

theorem sample_limit:
  "(case map_of arguments ''limit'' of None \<Rightarrow> n = 5 | Some v \<Rightarrow> v = PyInt n)
   \<and> truthy (dict_get arguments ''table_name'') \<longrightarrow>
     (\<forall>sql params. Execute sql params \<in> set (fst (get_table_sample_tool w host port arguments)) \<longrightarrow>
        sql = ''DESCRIBE `'' @ py_str (dict_get arguments ''table_name'') @ ''`''
        \<or> sql = ''SELECT * FROM `'' @ py_str (dict_get arguments ''table_name'') @ ''` LIMIT ''
                  @ py_str_int (min n 20))
     \<and> (returned (open_cursor w host port)
         \<and> cursor_execute w (''DESCRIBE `'' @ py_str (dict_get arguments ''table_name'') @ ''`'') []
               = Inr described
         \<and> fetch described = Inr columns \<longrightarrow>
         Execute (''SELECT * FROM `'' @ py_str (dict_get arguments ''table_name'') @ ''` LIMIT ''
                  @ py_str_int (min n 20)) []
           \<in> set (fst (get_table_sample_tool w host port arguments)))"
proof (intro impI conjI allI)
  assume h: "(case map_of arguments ''limit'' of None \<Rightarrow> n = 5 | Some v \<Rightarrow> v = PyInt n)
   \<and> truthy (dict_get arguments ''table_name'')"
  let ?tn = "dict_get arguments ''table_name''"
  from h have lim: "py_min (dict_get_default arguments ''limit'' (PyInt 5)) 20 = Inr (PyInt (min n 20))"
    by (auto simp: dict_get_default_def py_min_def min_def split: option.splits)
  have sq: "sample_sql ?tn (PyInt (min n 20))
            = ''SELECT * FROM `'' @ py_str ?tn @ ''` LIMIT '' @ py_str_int (min n 20)"
    by (simp add: sample_sql_def)
  have dq: "describe_sql ?tn = ''DESCRIBE `'' @ py_str ?tn @ ''`''"
    by (simp add: describe_sql_def)
  have ik: "\<not> is_execute e" if "factory_kind e" for e
    using that by (cases e) simp_all
  have ex: "filter is_execute (fst (get_table_sample_tool w host port arguments))
            = (case snd (open_cursor w host port) of
                 Inl e \<Rightarrow> [] | Inr u \<Rightarrow> filter is_execute (fst (sample_table w ?tn (PyInt (min n 20)))))"
  proof (cases "snd (open_cursor w host port)")
    case (Inl e)
    then show ?thesis
      using h lim
      by (cases e)
         (simp_all add: get_table_sample_tool_def Let_def handler_log_def
           open_cursor_filter[OF ik] close_filter)
  next
    case opened: (Inr u)
    show ?thesis
    proof (cases "snd (sample_table w ?tn (PyInt (min n 20)))")
      case (Inl e)
      then show ?thesis
        using opened h lim
        by (cases e)
           (simp_all add: get_table_sample_tool_def Let_def handler_log_def
             open_cursor_filter[OF ik] close_filter)
    next
      case (Inr r)
      then show ?thesis
        using opened h lim
        by (simp add: get_table_sample_tool_def Let_def handler_log_def
            open_cursor_filter[OF ik] close_filter)
    qed
  qed
  have mem: "Execute sql params \<in> set es \<longleftrightarrow> Execute sql params \<in> set (filter is_execute es)"
    for sql params es
    by simp
  {
    fix sql params
    assume e: "Execute sql params \<in> set (fst (get_table_sample_tool w host port arguments))"
    then have "Execute sql params \<in> set (filter is_execute (fst (get_table_sample_tool w host port arguments)))"
      by simp
    then show "sql = ''DESCRIBE `'' @ py_str ?tn @ ''`''
        \<or> sql = ''SELECT * FROM `'' @ py_str ?tn @ ''` LIMIT '' @ py_str_int (min n 20)"
      unfolding ex sample_table_executes sq[symmetric] dq[symmetric]
      by (auto split: sum.splits)
  }
  assume s: "returned (open_cursor w host port)
         \<and> cursor_execute w (''DESCRIBE `'' @ py_str ?tn @ ''`'') [] = Inr described
         \<and> fetch described = Inr columns"
  then have "\<exists>u. snd (open_cursor w host port) = Inr u" by (simp add: returned_iff)
  moreover from s have "sum_bind (cursor_execute w (describe_sql ?tn) []) fetch = Inr columns"
    by (simp add: dq sum_bind_def)
  ultimately have "Execute (sample_sql ?tn (PyInt (min n 20))) []
        \<in> set (filter is_execute (fst (get_table_sample_tool w host port arguments)))"
    unfolding ex sample_table_executes by auto
  then show "Execute (''SELECT * FROM `'' @ py_str ?tn @ ''` LIMIT ''
                  @ py_str_int (min n 20)) []
           \<in> set (fst (get_table_sample_tool w host port arguments))"
    unfolding sq by simp
qed

text \<open>
  The theorem at the limits 50, none and -3.
\<close>

theorem sample_limit_witness:
  "Execute ''SELECT * FROM `t` LIMIT 20'' []
     \<in> set (fst (get_table_sample_tool direct_world ''localhost'' 3306
                    [(''table_name'', PyStr ''t''), (''limit'', PyInt 50)]))
   \<and> Execute ''SELECT * FROM `t` LIMIT 5'' []
     \<in> set (fst (get_table_sample_tool direct_world ''localhost'' 3306 [(''table_name'', PyStr ''t'')]))
   \<and> Execute ''SELECT * FROM `t` LIMIT -3'' []
     \<in> set (fst (get_table_sample_tool direct_world ''localhost'' 3306
                    [(''table_name'', PyStr ''t''), (''limit'', PyInt (- 3))]))"
proof -
  have o: "returned (open_cursor direct_world ''localhost'' 3306)" by code_simp
  have d: "cursor_execute direct_world (''DESCRIBE `'' @ py_str (PyStr ''t'') @ ''`'') [] = Inr sample_result"
    by (simp add: direct_world_def)
  have f: "fetch sample_result = Inr [[(''n'', PyInt 1)]]" by (simp add: sample_result_def)
  have a1: "(case map_of [(''table_name'', PyStr ''t''), (''limit'', PyInt 50)] ''limit'' of
               None \<Rightarrow> (50::int) = 5 | Some v \<Rightarrow> v = PyInt 50)
            \<and> truthy (dict_get [(''table_name'', PyStr ''t''), (''limit'', PyInt 50)] ''table_name'')"
    by (simp add: dict_get_def)
  have a2: "(case map_of [(''table_name'', PyStr ''t'')] ''limit'' of
               None \<Rightarrow> (5::int) = 5 | Some v \<Rightarrow> v = PyInt 5)
            \<and> truthy (dict_get [(''table_name'', PyStr ''t'')] ''table_name'')"
    by (simp add: dict_get_def)
  have a3: "(case map_of [(''table_name'', PyStr ''t''), (''limit'', PyInt (- 3))] ''limit'' of
               None \<Rightarrow> (- 3::int) = 5 | Some v \<Rightarrow> v = PyInt (- 3))
            \<and> truthy (dict_get [(''table_name'', PyStr ''t''), (''limit'', PyInt (- 3))] ''table_name'')"
    by (simp add: dict_get_def)
  have t1: "dict_get [(''table_name'', PyStr ''t''), (''limit'', PyInt 50)] ''table_name'' = PyStr ''t''"
    and t2: "dict_get [(''table_name'', PyStr ''t'')] ''table_name'' = PyStr ''t''"
    and t3: "dict_get [(''table_name'', PyStr ''t''), (''limit'', PyInt (- 3))] ''table_name'' = PyStr ''t''"
    by (simp_all add: dict_get_def)
  have n1: "py_str_int 20 = ''20''" and n2: "py_str_int 5 = ''5''"
    and n3: "py_str_int (- 3) = ''-3''"
    by code_simp+
  let ?A1 = "[(''table_name'', PyStr ''t''), (''limit'', PyInt 50)]"
  let ?A2 = "[(''table_name'', PyStr ''t'')]"
  let ?A3 = "[(''table_name'', PyStr ''t''), (''limit'', PyInt (- 3))]"
  have d1: "cursor_execute direct_world (''DESCRIBE `'' @ py_str (dict_get ?A1 ''table_name'') @ ''`'') []
            = Inr sample_result"
    and d2: "cursor_execute direct_world (''DESCRIBE `'' @ py_str (dict_get ?A2 ''table_name'') @ ''`'') []
            = Inr sample_result"
    and d3: "cursor_execute direct_world (''DESCRIBE `'' @ py_str (dict_get ?A3 ''table_name'') @ ''`'') []
            = Inr sample_result"
    by (simp_all add: direct_world_def)
  from sample_limit[where arguments="?A1" and n=50 and w=direct_world and host="''localhost''"
      and port=3306 and described=sample_result and columns="[[(''n'', PyInt 1)]]"] a1 o d1 f
  have "Execute (''SELECT * FROM `'' @ py_str (dict_get ?A1 ''table_name'') @ ''` LIMIT ''
                  @ py_str_int (min 50 20)) []
          \<in> set (fst (get_table_sample_tool direct_world ''localhost'' 3306 ?A1))"
    by blast
  then have r1: "Execute ''SELECT * FROM `t` LIMIT 20'' []
     \<in> set (fst (get_table_sample_tool direct_world ''localhost'' 3306 ?A1))"
    by (simp add: t1 n1)
  from sample_limit[where arguments="?A2" and n=5 and w=direct_world and host="''localhost''"
      and port=3306 and described=sample_result and columns="[[(''n'', PyInt 1)]]"] a2 o d2 f
  have "Execute (''SELECT * FROM `'' @ py_str (dict_get ?A2 ''table_name'') @ ''` LIMIT ''
                  @ py_str_int (min 5 20)) []
          \<in> set (fst (get_table_sample_tool direct_world ''localhost'' 3306 ?A2))"
    by blast
  then have r2: "Execute ''SELECT * FROM `t` LIMIT 5'' []
     \<in> set (fst (get_table_sample_tool direct_world ''localhost'' 3306 ?A2))"
    by (simp add: t2 n2)
  from sample_limit[where arguments="?A3" and n="- 3" and w=direct_world and host="''localhost''"
      and port=3306 and described=sample_result and columns="[[(''n'', PyInt 1)]]"] a3 o d3 f
  have "Execute (''SELECT * FROM `'' @ py_str (dict_get ?A3 ''table_name'') @ ''` LIMIT ''
                  @ py_str_int (min (- 3) 20)) []
          \<in> set (fst (get_table_sample_tool direct_world ''localhost'' 3306 ?A3))"
    by blast
  then have r3: "Execute ''SELECT * FROM `t` LIMIT -3'' []
     \<in> set (fst (get_table_sample_tool direct_world ''localhost'' 3306 ?A3))"
    by (simp add: t3 n3)
  from r1 r2 r3 show ?thesis by blast
qed

section \<open>Secrets in the log: claims\<close>

text \<open>
  Claim C3 against the code. In the direct world, whose password is \<open>hunter2\<close>, a call
  of \<open>get_schema_info\<close> writes a log record that contains the password: it is the record
  \<open>get_database_connection: config=...\<close>, which prints the dictionary that
  \<open>get_db_config\<close> had masked only in its own record. In the tunnel world a call writes
  a record that contains the whole path of the key file: the record of the \<open>ssh\<close>
  command line, two statements after the record that shows the base name only.
\<close>

theorem secrets_logged:
  "environ direct_world ''MYSQL_PASSWORD'' = Some ''hunter2''
   \<and> list_ex (py_in ''hunter2'')
        (log_messages (fst (call_tool direct_world ''get_schema_info'' [])))
   \<and> environ tunnel_world ''MYSQL_SSH_KEY_PATH'' = Some ''/home/ops/.ssh/id_rsa''
   \<and> list_ex (py_in ''/home/ops/.ssh/id_rsa'')
        (log_messages (fst (call_tool tunnel_world ''get_reference_doc'' [])))"
  by code_simp

section \<open>Release of resources: claims\<close>

text \<open>
  Claim C6 against the code. When the connection is opened and the cursor cannot be
  created, the final block of \<open>get_schema_info_tool\<close> fails at \<open>cursor.close()\<close>, where
  \<open>cursor\<close> is unbound, and \<open>connection.close()\<close> is never called: the trace has one
  successful \<open>Connect\<close> and no \<open>ConnectionClose\<close>. When \<open>cursor.close()\<close> raises in
  \<open>get_table_sample_tool\<close>, the trace ends there: the connection is not closed and
  nothing is logged.
\<close>

theorem connection_left_open:
  "mysql_connect (direct_world\<lparr>new_cursor := Some (MySQLError ''Connection not available'')\<rparr>) 0 = None
   \<and> length (filter is_connect
        (fst (call_tool (direct_world\<lparr>new_cursor := Some (MySQLError ''Connection not available'')\<rparr>)
               ''get_schema_info'' []))) = 1
   \<and> ConnectionClose \<notin> set
        (fst (call_tool (direct_world\<lparr>new_cursor := Some (MySQLError ''Connection not available'')\<rparr>)
               ''get_schema_info'' []))
   \<and> dropWhile (\<lambda>e. e \<noteq> CursorClose)
        (fst (call_tool (direct_world\<lparr>cursor_close := Some (MySQLError ''Lost connection'')\<rparr>)
               ''get_table_sample'' [(''table_name'', PyStr ''t'')]))
       = [CursorClose]"
  by code_simp

end
